theory Spec2Isabelle
  imports Complex_Main "HOL-Library.Code_Target_Numeral"
begin

section \<open>The Wright-Fisher solver driver \<open>wfes\<close> (src/wfes.c)\<close>

text \<open>
  The development embeds the function \<open>wfes\<close> of \<open>src/wfes.c\<close>: the choice of the
  row-block size, the two right-hand sides, the five calls of the direct sparse solver
  \<open>pardiso_64\<close>, the clamping of the two solved vectors and the summary statistics.

  Numbers. \<open>DKL_INT\<close> is a signed 64-bit integer; it is modelled by \<open>int\<close>. The one
  integer computation of \<open>wfes\<close> that can leave the 64-bit range is \<open>2 * N - 1\<close>; C
  leaves a signed overflow undefined, and the model ends such a run as \<open>Undefined\<close>
  before anything else happens. In the statistics a finite \<open>double\<close> is idealised as a
  \<open>real\<close>: rounding and the sign of zero are not modelled there. The product
  \<open>matrix_size * 0.1\<close> that gives the block size is the exception: its value decides
  an integer, so it is computed as binary64 arithmetic does, rounding to the nearest
  double. The five scalar summaries of the result structure can leave the finite range
  (a division by zero, the assignment of \<open>NAN\<close>), so they have the type \<open>double\<close> below,
  which adds the two infinities and not-a-number. The entries of the vectors (the
  solver's solutions, the right-hand sides) are taken to be finite.
\<close>

subsection \<open>Doubles that can leave the finite range\<close>

datatype double = Fin real | PInf | NInf | NaN

text \<open>\<open>x + y\<close> for a finite \<open>y\<close> (C's \<open>+=\<close> on a double accumulator).\<close>

fun dadd :: "double \<Rightarrow> real \<Rightarrow> double" where
  "dadd (Fin a) b = Fin (a + b)"
| "dadd PInf b = PInf"
| "dadd NInf b = NInf"
| "dadd NaN b = NaN"

text \<open>
  \<open>x / y\<close> for a finite \<open>y\<close> (C's \<open>/=\<close>), as IEEE 754 defines it: a nonzero finite
  number divided by zero is an infinity, zero divided by zero is not-a-number.
\<close>

fun ddiv :: "double \<Rightarrow> real \<Rightarrow> double" where
  "ddiv (Fin a) b =
     (if b \<noteq> 0 then Fin (a / b)
      else if a = 0 then NaN
      else if 0 < a then PInf else NInf)"
| "ddiv PInf b = (if 0 \<le> b then PInf else NInf)"
| "ddiv NInf b = (if 0 \<le> b then NInf else PInf)"
| "ddiv NaN b = NaN"

text \<open>
  C's \<open>pow (x, y)\<close> at an integral exponent \<open>y \<ge> 0\<close>. \<open>wfes\<close> calls it with \<open>y = 2N\<close>
  inside a loop that runs only when \<open>2N - 1 \<ge> 1\<close>.
\<close>

definition pow :: "real \<Rightarrow> int \<Rightarrow> real" where
  "pow x y = x ^ nat y"

subsection \<open>Rounding to the nearest double\<close>

text \<open>The number of binary digits of \<open>n\<close>: the \<open>b\<close> with \<open>2^(b-1) \<le> n < 2^b\<close>, and 0 for 0.\<close>

fun bit_length :: "nat \<Rightarrow> nat" where
  "bit_length n = (if n = 0 then 0 else Suc (bit_length (n div 2)))"

declare bit_length.simps [simp del]

text \<open>The integer nearest to \<open>y\<close>, a tie going to the even one (the default rounding mode).\<close>

definition round_half_even :: "real \<Rightarrow> int" where
  "round_half_even y =
     (let f = \<lfloor>y\<rfloor>; d = y - real_of_int f
      in if d < 1 / 2 then f else if 1 / 2 < d then f + 1 else if even f then f else f + 1)"

text \<open>
  The binary64 number nearest to \<open>x\<close>, for \<open>1 \<le> x < 2^1024\<close>. A double has 53
  significant bits: with \<open>2^(b-1) \<le> x < 2^b\<close> the doubles around \<open>x\<close> are the
  multiples of \<open>2^(b-53)\<close>. Converting the 64-bit integer \<open>x\<close> to \<open>double\<close> gives
  \<open>to_double x\<close>, and so does multiplying two doubles whose exact product is \<open>x\<close>.
\<close>

definition to_double :: "real \<Rightarrow> real" where
  "to_double x =
     (let e = int (bit_length (nat \<lfloor>x\<rfloor>)) - 53
      in real_of_int (round_half_even (x * 2 powi (- e))) * 2 powi e)"

text \<open>
  The constant \<open>0.1\<close> of line 60: the double nearest to \<open>1/10\<close>. As
  \<open>2^(-4) \<le> 1/10 < 2^(-3)\<close>, the doubles around it are the multiples of \<open>2^(-56)\<close>.
\<close>

definition double_0_1 :: real where
  "double_0_1 = real_of_int (round_half_even (1 / 10 * 2 ^ 56)) / 2 ^ 56"

subsection \<open>Data\<close>

record wf_parameters =
  population_size :: int
  selection :: real
  forward_mutation_rate :: real
  backward_mutation_rate :: real
  dominance_coefficient :: real

text \<open>
  The result structure. \<open>B1\<close>, \<open>B2\<close> and \<open>N\<close> are the caller's arrays, of \<open>2N - 1\<close>
  doubles each when allocated as the interface asks.
\<close>

record wf_statistics =
  B1 :: "real list"
  B2 :: "real list"
  N :: "real list"
  probability_extinction :: double
  probability_fixation :: double
  time_extinction :: double
  time_fixation :: double
  count_before_extinction :: double

record csr_sparse_matrix =
  data :: "real list"
  cols :: "int list"
  row_index :: "int list"

text \<open>
  One call of \<open>pardiso_64\<close>: the arguments \<open>wfes\<close> passes, in the order of the call.
  \<open>pt\<close> (the solver's handle, 64 pointers) and \<open>iparm\<close> (its 64 control parameters) are
  arrays read by constant index, modelled as functions of the index. \<open>None\<close> stands for
  the address of the dummy \<open>ddum\<close>. The permutation dummy \<open>idum\<close> and the scratch vector
  \<open>workspace\<close> carry no information and are left out.
\<close>

record pardiso_args =
  p_pt :: "nat \<Rightarrow> int"
  p_maxfct :: int
  p_mnum :: int
  p_mtype :: int
  p_phase :: int
  p_n :: int
  p_a :: "real list option"
  p_ia :: "int list"
  p_ja :: "int list"
  p_nrhs :: int
  p_iparm :: "nat \<Rightarrow> int"
  p_msglvl :: int
  p_b :: "real list option"

text \<open>
  What a call leaves behind: the handle, the control parameters (the solver writes its
  output parameters there), the right-hand-side buffer (\<open>iparm[5] = 1\<close>: the solution
  overwrites it; \<open>r_b i\<close> is the value left in entry \<open>i\<close>) and the status.
\<close>

record pardiso_result =
  r_pt :: "nat \<Rightarrow> int"
  r_iparm :: "nat \<Rightarrow> int"
  r_b :: "nat \<Rightarrow> real"
  r_error :: int

text \<open>
  The functions \<open>wfes\<close> calls that are not defined in \<open>src/wfes.c\<close>: the transition
  model, the matrix builder and the solver. They are parameters of the model.
\<close>

record externals =
  wf_sampling_coefficient :: "wf_parameters \<Rightarrow> int \<Rightarrow> real"
  wf_matrix_csr :: "wf_parameters \<Rightarrow> int \<Rightarrow> real \<Rightarrow> csr_sparse_matrix"
  pardiso_64 :: "pardiso_args \<Rightarrow> pardiso_result"

text \<open>
  What a run does that can be observed: the solver calls, and the lines it prints.
  \<open>Printf s k\<close> is \<open>printf\<close> of the text \<open>s\<close>, the decimal \<open>k\<close> (\<open>PRId64\<close>) and a newline;
  \<open>Println s\<close> is the line \<open>s\<close>.
\<close>

datatype event = Pardiso pardiso_args | Printf string int | Println string

text \<open>
  A run ends in \<open>exit (status)\<close>, or returns with the result structure filled, or
  overflows a signed integer or writes outside an array, which C leaves undefined: the
  model stops there.
\<close>

datatype outcome = Exit int | Return wf_statistics | Undefined

subsection \<open>Sizes and right-hand sides\<close>

definition matrix_size :: "wf_parameters \<Rightarrow> int" where
  "matrix_size w = (2 * population_size w) - 1"

text \<open>
  Lines 58-63. In \<open>block_size = matrix_size * 0.1\<close> the integer \<open>matrix_size\<close> is
  converted to \<open>double\<close>, multiplied by the double \<open>0.1\<close> (the product is rounded to a
  double), and the result is converted to \<open>DKL_INT\<close>, which drops the fraction (the
  value is positive on this branch).
\<close>

definition block_size :: "wf_parameters \<Rightarrow> int" where
  "block_size w =
     (if matrix_size w \<ge> 100
      then \<lfloor>to_double (to_double (real_of_int (matrix_size w)) * double_0_1)\<rfloor>
      else matrix_size w)"

text \<open>Lines 81-84: the right-hand side of the first solve.\<close>

definition extinction_rhs :: "externals \<Rightarrow> wf_parameters \<Rightarrow> real list" where
  "extinction_rhs ext w =
     map (\<lambda>i. let q = wf_sampling_coefficient ext w (int i + 1)
              in pow (1 - q) (2 * population_size w))
         [0..<nat (matrix_size w)]"

text \<open>
  Lines 190-193: the buffer is overwritten for the second solve, entry 0 first, then
  the entries \<open>1 .. matrix_size - 1\<close>.
\<close>

definition sojourn_rhs :: "nat \<Rightarrow> real list \<Rightarrow> real list" where
  "sojourn_rhs m rhs = fold (\<lambda>i b. b[i := 0]) [1..<m] (rhs[0 := 1])"

text \<open>Lines 87-113: the control parameters.\<close>

definition iparm_setup :: "nat \<Rightarrow> int" where
  "iparm_setup =
     (\<lambda>i. 0)(0 := 1, 1 := 3, 2 := 1, 3 := 0, 4 := 0, 5 := 1, 6 := 0, 7 := 2, 8 := 0,
             9 := 20, 10 := 1, 11 := 0, 12 := 1, 13 := 0, 14 := 0, 15 := 0, 16 := 0,
             17 := - 1, 18 := - 1, 19 := 0, 26 := 0, 34 := 1, 59 := 1)"

subsection \<open>The statistics reducer\<close>

text \<open>
  \<open>memcpy (dst, src, k * sizeof (double))\<close>. The byte count is exact for every \<open>k\<close>
  below \<open>2^61\<close>, and no array of doubles is longer.
\<close>

definition memcpy :: "real list \<Rightarrow> real list \<Rightarrow> nat \<Rightarrow> real list" where
  "memcpy dst src k = take k src @ drop k dst"

text \<open>Lines 182-185, the body of the loop after the first solve.\<close>

definition clamp_B :: "nat \<Rightarrow> wf_statistics \<Rightarrow> wf_statistics" where
  "clamp_B i r =
     (let r1 = (if B1 r ! i < 0 then r\<lparr>B1 := (B1 r)[i := 0]\<rparr> else r)
      in r1\<lparr>B2 := (B2 r1)[i := 1 - B1 r1 ! i]\<rparr>)"

text \<open>Lines 180-186.\<close>

definition store_B :: "nat \<Rightarrow> real list \<Rightarrow> wf_statistics \<Rightarrow> wf_statistics" where
  "store_B m rhs r = fold clamp_B [0..<m] (r\<lparr>B1 := memcpy (B1 r) rhs m\<rparr>)"

text \<open>Lines 204-206, the body of the loop after the second solve.\<close>

definition clamp_N :: "nat \<Rightarrow> wf_statistics \<Rightarrow> wf_statistics" where
  "clamp_N i r = (if N r ! i < 0 then r\<lparr>N := (N r)[i := 0]\<rparr> else r)"

text \<open>Lines 202-207.\<close>

definition store_N :: "nat \<Rightarrow> real list \<Rightarrow> wf_statistics \<Rightarrow> wf_statistics" where
  "store_N m rhs r = fold clamp_N [0..<m] (r\<lparr>N := memcpy (N r) rhs m\<rparr>)"

text \<open>Lines 217-219, the body of the summary loop.\<close>

definition summary_step :: "nat \<Rightarrow> wf_statistics \<Rightarrow> wf_statistics" where
  "summary_step i r =
     r\<lparr>time_extinction := dadd (time_extinction r) (B1 r ! i * N r ! i),
       time_fixation := dadd (time_fixation r) (B2 r ! i * N r ! i),
       count_before_extinction :=
         dadd (count_before_extinction r) ((N r ! i * B1 r ! i) * real (i + 1))\<rparr>"

text \<open>Lines 216-237.\<close>

definition summary :: "nat \<Rightarrow> wf_statistics \<Rightarrow> wf_statistics" where
  "summary m r =
     (let r1 = fold summary_step [0..<m] r;
          r2 = r1\<lparr>time_extinction := ddiv (time_extinction r1) (B1 r1 ! 0)\<rparr>;
          r3 = r2\<lparr>time_fixation := ddiv (time_fixation r2) (B2 r2 ! 0)\<rparr>;
          r4 = r3\<lparr>count_before_extinction :=
                   ddiv (count_before_extinction r3) (B1 r3 ! 0)\<rparr>;
          r5 = (if B1 r4 ! 0 \<le> 0
                then r4\<lparr>probability_extinction := Fin 0, time_extinction := NaN\<rparr>
                else r4\<lparr>probability_extinction := Fin (B1 r4 ! 0)\<rparr>)
      in if B2 r5 ! 0 \<le> 0
         then r5\<lparr>probability_fixation := Fin 0, time_fixation := NaN\<rparr>
         else r5\<lparr>probability_fixation := Fin (B2 r5 ! 0)\<rparr>)"

subsection \<open>The driver\<close>

text \<open>
  The arguments every call shares: \<open>maxfct = 1\<close>, \<open>mnum = 1\<close>, \<open>mtype = 11\<close>, \<open>nrhs = 1\<close>,
  \<open>msglvl = 0\<close>, the dimension, and the index arrays of the assembled matrix.
\<close>

definition call :: "(nat \<Rightarrow> int) \<Rightarrow> int \<Rightarrow> int \<Rightarrow> real list option \<Rightarrow> csr_sparse_matrix \<Rightarrow>
    (nat \<Rightarrow> int) \<Rightarrow> real list option \<Rightarrow> pardiso_args" where
  "call pt ph msize values A ip rhs =
     \<lparr>p_pt = pt, p_maxfct = 1, p_mnum = 1, p_mtype = 11, p_phase = ph, p_n = msize,
      p_a = values, p_ia = row_index A, p_ja = cols A, p_nrhs = 1, p_iparm = ip,
      p_msglvl = 0, p_b = rhs\<rparr>"

text \<open>
  Lines 39-260. The result pairs the events of the run, in order, with how it ended.
  \<open>exit (phase)\<close> ends the run at once. The four tests that lead to \<open>Undefined\<close> are not
  in the source: they stand where the behaviour of the source is undefined. The first
  is line 41: \<open>2 * population_size\<close> leaves the 64-bit range from \<open>2^62\<close> on and below
  \<open>- 2^62\<close>, and \<open>2 * population_size - 1\<close> at \<open>- 2^62\<close>. The others stand where the source
  would write outside an array (\<open>memcpy\<close> and the clamping loops on arrays of the caller
  shorter than \<open>matrix_size\<close>; \<open>rhs[0] = 1.0\<close> on an empty buffer).
\<close>

definition wfes :: "externals \<Rightarrow> wf_parameters \<Rightarrow> wf_statistics \<Rightarrow> real \<Rightarrow> event list \<times> outcome" where
  "wfes ext w r zero_threshold =
     (if population_size w \<le> - (2 ^ 62) \<or> 2 ^ 62 \<le> population_size w
      then ([], Undefined)
      else
     (let msize = matrix_size w;
          m = nat msize;
          A = wf_matrix_csr ext w (block_size w) zero_threshold;
          rhs = extinction_rhs ext w;
          c1 = call (\<lambda>i. 0) 11 msize (Some (data A)) A iparm_setup None;
          o1 = pardiso_64 ext c1
      in if r_error o1 \<noteq> 0
         then ([Pardiso c1,
                Printf ''ERROR during symbolic factorization: '' (r_error o1)], Exit 11)
         else
     (let c2 = call (r_pt o1) 22 msize (Some (data A)) A (r_iparm o1) None;
          o2 = pardiso_64 ext c2
      in if r_error o2 \<noteq> 0
         then ([Pardiso c1, Pardiso c2,
                Printf ''ERROR during numeric factorization: '' (r_error o2)], Exit 22)
         else
     (let c3 = call (r_pt o2) 33 msize (Some (data A)) A ((r_iparm o2)(11 := 0)) (Some rhs);
          o3 = pardiso_64 ext c3
      in if r_error o3 \<noteq> 0
         then ([Pardiso c1, Pardiso c2, Pardiso c3,
                Printf ''ERROR during solution: '' (r_error o3)], Exit 33)
         else if length (B1 r) < m \<or> length (B2 r) < m
         then ([Pardiso c1, Pardiso c2, Pardiso c3], Undefined)
         else
     (let rhs3 = map (r_b o3) [0..<m];
          ra = store_B m rhs3 r
      in if m = 0
         then ([Pardiso c1, Pardiso c2, Pardiso c3, Println ''Solution successful!''],
               Undefined)
         else
     (let rhs4 = sojourn_rhs m rhs3;
          c4 = call (r_pt o3) 33 msize (Some (data A)) A ((r_iparm o3)(11 := 2)) (Some rhs4);
          o4 = pardiso_64 ext c4
      in if r_error o4 \<noteq> 0
         then ([Pardiso c1, Pardiso c2, Pardiso c3, Println ''Solution successful!'',
                Pardiso c4, Printf ''ERROR during solution: '' (r_error o4)], Exit 33)
         else if length (N r) < m
         then ([Pardiso c1, Pardiso c2, Pardiso c3, Println ''Solution successful!'',
                Pardiso c4], Undefined)
         else
     (let rhs5 = map (r_b o4) [0..<m];
          rb = store_N m rhs5 ra;
          rc = summary m rb;
          c5 = call (r_pt o4) (- 1) msize None A (r_iparm o4) None
      in ([Pardiso c1, Pardiso c2, Pardiso c3, Println ''Solution successful!'',
           Pardiso c4, Pardiso c5], Return rc))))))))"

text \<open>
  The five calls of a run that meets no error, each named after its phase and written
  as a function of the run's inputs: every call takes the handle and the control
  parameters the call before it left. \<open>wfes_unfold\<close> below shows that these are the calls
  \<open>wfes\<close> makes.
\<close>

definition analyze_call :: "externals \<Rightarrow> wf_parameters \<Rightarrow> real \<Rightarrow> pardiso_args" where
  "analyze_call ext w z =
     (let A = wf_matrix_csr ext w (block_size w) z
      in call (\<lambda>i. 0) 11 (matrix_size w) (Some (data A)) A iparm_setup None)"

definition factorize_call :: "externals \<Rightarrow> wf_parameters \<Rightarrow> real \<Rightarrow> pardiso_args" where
  "factorize_call ext w z =
     (let A = wf_matrix_csr ext w (block_size w) z;
          o1 = pardiso_64 ext (analyze_call ext w z)
      in call (r_pt o1) 22 (matrix_size w) (Some (data A)) A (r_iparm o1) None)"

definition forward_solve_call :: "externals \<Rightarrow> wf_parameters \<Rightarrow> real \<Rightarrow> pardiso_args" where
  "forward_solve_call ext w z =
     (let A = wf_matrix_csr ext w (block_size w) z;
          o2 = pardiso_64 ext (factorize_call ext w z)
      in call (r_pt o2) 33 (matrix_size w) (Some (data A)) A ((r_iparm o2)(11 := 0))
           (Some (extinction_rhs ext w)))"

text \<open>The vector the first solve leaves in the buffer.\<close>

definition forward_solution :: "externals \<Rightarrow> wf_parameters \<Rightarrow> real \<Rightarrow> real list" where
  "forward_solution ext w z =
     map (r_b (pardiso_64 ext (forward_solve_call ext w z))) [0..<nat (matrix_size w)]"

definition transpose_solve_call :: "externals \<Rightarrow> wf_parameters \<Rightarrow> real \<Rightarrow> pardiso_args" where
  "transpose_solve_call ext w z =
     (let A = wf_matrix_csr ext w (block_size w) z;
          o3 = pardiso_64 ext (forward_solve_call ext w z)
      in call (r_pt o3) 33 (matrix_size w) (Some (data A)) A ((r_iparm o3)(11 := 2))
           (Some (sojourn_rhs (nat (matrix_size w)) (forward_solution ext w z))))"

text \<open>The vector the second solve leaves in the buffer.\<close>

definition transpose_solution :: "externals \<Rightarrow> wf_parameters \<Rightarrow> real \<Rightarrow> real list" where
  "transpose_solution ext w z =
     map (r_b (pardiso_64 ext (transpose_solve_call ext w z))) [0..<nat (matrix_size w)]"

definition release_call :: "externals \<Rightarrow> wf_parameters \<Rightarrow> real \<Rightarrow> pardiso_args" where
  "release_call ext w z =
     (let A = wf_matrix_csr ext w (block_size w) z;
          o4 = pardiso_64 ext (transpose_solve_call ext w z)
      in call (r_pt o4) (- 1) (matrix_size w) None A (r_iparm o4) None)"

text \<open>The statistics reducer on the two solved vectors: lines 180-186, 202-207, 216-237.\<close>

definition reduce :: "nat \<Rightarrow> real list \<Rightarrow> real list \<Rightarrow> wf_statistics \<Rightarrow> wf_statistics" where
  "reduce m x1 x2 r = summary m (store_N m x2 (store_B m x1 r))"

text \<open>The solver calls of a run, in order.\<close>

fun pardiso_calls :: "event list \<Rightarrow> pardiso_args list" where
  "pardiso_calls [] = []"
| "pardiso_calls (Pardiso c # es) = c # pardiso_calls es"
| "pardiso_calls (e # es) = pardiso_calls es"

subsection \<open>The matrix builder, from its specification\<close>

text \<open>
  \<open>wf_matrix_csr\<close> is called by \<open>wfes\<close> and defined elsewhere in the repository, not in
  \<open>src/wfes.c\<close>. The definitions of this subsection follow section 4.2 of the
  specification; the sampling coefficient stays a parameter \<open>q\<close>.
\<close>

text \<open>
  Modelled from the spec: the probability mass of Binomial(\<open>n\<close>, \<open>q\<close>) at \<open>k\<close>, which the
  builder computes for every row ("compute the Binomial(2N, q_i) probability mass at
  each neighboring transient column j"); its code is not in \<open>src/wfes.c\<close>.
\<close>

definition binomial_mass :: "nat \<Rightarrow> real \<Rightarrow> nat \<Rightarrow> real" where
  "binomial_mass n q k = real (n choose k) * q ^ k * (1 - q) ^ (n - k)"

text \<open>
  Modelled from the spec: the entry of \<open>I - Q\<close> in row \<open>i\<close> and column \<open>j\<close> (states of
  \<open>i + 1\<close> and \<open>j + 1\<close> copies), the diagonal being \<open>1 - Q[i][i]\<close>; part of the builder
  \<open>wf_matrix_csr\<close>, which is missing from \<open>src/\<close>.
\<close>

definition generator_entry ::
    "(wf_parameters \<Rightarrow> int \<Rightarrow> real) \<Rightarrow> wf_parameters \<Rightarrow> nat \<Rightarrow> nat \<Rightarrow> real" where
  "generator_entry q w i j =
     (let mass = binomial_mass (nat (2 * population_size w)) (q w (int i + 1)) (j + 1)
      in if i = j then 1 - mass else - mass)"

text \<open>
  Modelled from the spec: one row of the builder \<open>wf_matrix_csr\<close> (missing from
  \<open>src/\<close>), as pairs of column and value in ascending column order. An entry is
  included only if its magnitude exceeds the zero-threshold; the diagonal is present in
  every row.
\<close>

definition matrix_row ::
    "(wf_parameters \<Rightarrow> int \<Rightarrow> real) \<Rightarrow> wf_parameters \<Rightarrow> real \<Rightarrow> nat \<Rightarrow> (int \<times> real) list" where
  "matrix_row q w z i =
     map (\<lambda>j. (int j, generator_entry q w i j))
       (filter (\<lambda>j. j = i \<or> z < \<bar>generator_entry q w i j\<bar>) [0..<nat (matrix_size w)])"

text \<open>
  Modelled from the spec: the loop of the builder \<open>wf_matrix_csr\<close> (missing from
  \<open>src/\<close>) that processes the rows in blocks of \<open>bs\<close>: the rows \<open>start .. start + bs - 1\<close>,
  then the block after them, until row \<open>m\<close>. A block size of 0 makes no progress;
  \<open>wf_matrix_csr_spec\<close> excludes it before the loop.
\<close>

function block_rows :: "(nat \<Rightarrow> 'a) \<Rightarrow> nat \<Rightarrow> nat \<Rightarrow> nat \<Rightarrow> 'a list" where
  "block_rows row m bs start =
     (if bs = 0 \<or> m \<le> start then []
      else map row [start..<min (start + bs) m] @ block_rows row m bs (start + bs))"
  by pat_completeness auto
termination
  by (relation "measure (\<lambda>(row, m, bs, start). m - start)") auto

declare block_rows.simps [simp del]

text \<open>
  Modelled from the spec: the row pointers of the compressed-sparse-row layout the
  builder \<open>wf_matrix_csr\<close> (missing from \<open>src/\<close>) returns, zero-based as \<open>iparm[34] = 1\<close>
  asks: where each row starts among the values, and the total last.
\<close>

fun row_pointers :: "nat \<Rightarrow> 'a list list \<Rightarrow> int list" where
  "row_pointers k [] = [int k]"
| "row_pointers k (r # rs) = int k # row_pointers (k + length r) rs"

text \<open>
  Modelled from the spec: the compressed-sparse-row matrix of a list of rows, the
  result layout of the builder \<open>wf_matrix_csr\<close> (missing from \<open>src/\<close>).
\<close>

definition csr_of_rows :: "(int \<times> real) list list \<Rightarrow> csr_sparse_matrix" where
  "csr_of_rows rows =
     \<lparr>data = concat (map (map snd) rows), cols = concat (map (map fst) rows),
      row_index = row_pointers 0 rows\<rparr>"

text \<open>
  Modelled from the spec: the matrix builder \<open>wf_matrix_csr\<close>, whose code is not in
  \<open>src/wfes.c\<close>: from the parameters, a block size and a zero-threshold, the matrix
  \<open>I - Q\<close> of the \<open>2N - 1\<close> transient states, assembled block by block. \<open>None\<close>: with a
  block size below 1 the loop over the blocks does not advance and the builder does
  not return.
\<close>

definition wf_matrix_csr_spec ::
    "(wf_parameters \<Rightarrow> int \<Rightarrow> real) \<Rightarrow> wf_parameters \<Rightarrow> int \<Rightarrow> real \<Rightarrow> csr_sparse_matrix option" where
  "wf_matrix_csr_spec q w bs z =
     (if bs < 1 then None
      else Some (csr_of_rows
             (block_rows (matrix_row q w z) (nat (matrix_size w)) (nat bs) 0)))"

subsection \<open>Concrete inputs\<close>

text \<open>
  A population of two diploid individuals (three transient states), a result structure
  as a caller allocates it, and a solver that answers with two given vectors and with a
  status that depends on the phase and on \<open>iparm[11]\<close>. They serve to run the model.
\<close>

definition ex_parameters :: wf_parameters where
  "ex_parameters = \<lparr>population_size = 2, selection = 0, forward_mutation_rate = 0,
     backward_mutation_rate = 0, dominance_coefficient = 1 / 2\<rparr>"

definition ex_statistics :: wf_statistics where
  "ex_statistics = \<lparr>B1 = [0, 0, 0], B2 = [0, 0, 0], N = [0, 0, 0],
     probability_extinction = Fin 0, probability_fixation = Fin 0,
     time_extinction = Fin 0, time_fixation = Fin 0, count_before_extinction = Fin 0\<rparr>"

definition ex_pardiso ::
    "real list \<Rightarrow> real list \<Rightarrow> (int \<Rightarrow> int \<Rightarrow> int) \<Rightarrow> pardiso_args \<Rightarrow> pardiso_result" where
  "ex_pardiso x1 x2 status c =
     \<lparr>r_pt = (p_pt c)(0 := 1),
      r_iparm = (p_iparm c)(17 := 5),
      r_b = (\<lambda>i. if p_iparm c 11 = 2 then x2 ! i else x1 ! i),
      r_error = status (p_phase c) (p_iparm c 11)\<rparr>"

definition ex_externals :: "real list \<Rightarrow> real list \<Rightarrow> (int \<Rightarrow> int \<Rightarrow> int) \<Rightarrow> externals" where
  "ex_externals x1 x2 status =
     \<lparr>wf_sampling_coefficient =
        (\<lambda>w i. real_of_int i / real_of_int (2 * population_size w)),
      wf_matrix_csr =
        (\<lambda>w bs z. \<lparr>data = [1, 1, 1], cols = [0, 1, 2], row_index = [0, 1, 2, 3]\<rparr>),
      pardiso_64 = ex_pardiso x1 x2 status\<rparr>"

text \<open>
  What the run on the solved vectors \<open>[1/2, -1/4, 1/8]\<close> and \<open>[1, -1, 2]\<close> returns: from
  summaries that are zero on entry, and from the summaries \<open>1\<close>, \<open>2\<close> and \<open>3\<close>.
\<close>

definition ex_result :: wf_statistics where
  "ex_result = \<lparr>B1 = [1 / 2, 0, 1 / 8], B2 = [1 / 2, 1, 7 / 8], N = [1, 0, 2],
     probability_extinction = Fin (1 / 2), probability_fixation = Fin (1 / 2),
     time_extinction = Fin (3 / 2), time_fixation = Fin (9 / 2),
     count_before_extinction = Fin (5 / 2)\<rparr>"

definition ex_result_offset :: wf_statistics where
  "ex_result_offset = \<lparr>B1 = [1 / 2, 0, 1 / 8], B2 = [1 / 2, 1, 7 / 8], N = [1, 0, 2],
     probability_extinction = Fin (1 / 2), probability_fixation = Fin (1 / 2),
     time_extinction = Fin (7 / 2), time_fixation = Fin (17 / 2),
     count_before_extinction = Fin (17 / 2)\<rparr>"

text \<open>
  What the run returns on the solved vectors \<open>[-1/10, 1/2, 1/4]\<close> and \<open>[1, 1, 1]\<close> (the
  first entry of \<open>B1\<close> is clamped to 0), and on \<open>[3/2, 1/4, 1/8]\<close> and \<open>[1, -1, 2]\<close> (the
  first solved entry exceeds 1), both from summaries that are zero on entry.
\<close>

definition ex_result_degenerate :: wf_statistics where
  "ex_result_degenerate = \<lparr>B1 = [0, 1 / 2, 1 / 4], B2 = [1, 1 / 2, 3 / 4], N = [1, 1, 1],
     probability_extinction = Fin 0, probability_fixation = Fin 1,
     time_extinction = NaN, time_fixation = Fin (9 / 4),
     count_before_extinction = PInf\<rparr>"

definition ex_result_noise :: wf_statistics where
  "ex_result_noise = \<lparr>B1 = [3 / 2, 1 / 4, 1 / 8], B2 = [- 1 / 2, 3 / 4, 7 / 8], N = [1, 0, 2],
     probability_extinction = Fin (3 / 2), probability_fixation = Fin 0,
     time_extinction = Fin (7 / 6), time_fixation = NaN,
     count_before_extinction = Fin (3 / 2)\<rparr>"

text \<open>
  The externals of the concrete inputs with the matrix builder of the specification in
  place of the fixed matrix.
\<close>

definition ex_spec_externals :: externals where
  "ex_spec_externals =
     \<lparr>wf_sampling_coefficient =
        (\<lambda>w i. real_of_int i / real_of_int (2 * population_size w)),
      wf_matrix_csr =
        (\<lambda>w bs z. the (wf_matrix_csr_spec
           (\<lambda>w i. real_of_int i / real_of_int (2 * population_size w)) w bs z)),
      pardiso_64 = ex_pardiso [1 / 2, - 1 / 4, 1 / 8] [1, - 1, 2] (\<lambda>ph mode. 0)\<rparr>"

section \<open>Properties\<close>

subsection \<open>Rounding to the nearest double\<close>

lemma bit_length_0 [simp]: "bit_length 0 = 0"
  by (subst bit_length.simps) simp

lemma bit_length_1 [simp]: "bit_length (Suc 0) = Suc 0"
  by (subst bit_length.simps) simp

lemma bit_length_bounds:
  "0 < n \<Longrightarrow> 2 ^ (bit_length n - 1) \<le> n \<and> n < 2 ^ bit_length n"
proof (induction n rule: bit_length.induct)
  case (1 n)
  show ?case
  proof (cases "n div 2 = 0")
    case True
    with "1.prems" have "n = 1" by (cases n) auto
    then show ?thesis
      by simp
  next
    case False
    with "1.IH" "1.prems" have IH: "2 ^ (bit_length (n div 2) - 1) \<le> n div 2"
      "n div 2 < 2 ^ bit_length (n div 2)"
      by auto
    have pos: "0 < bit_length (n div 2)"
      using False by (subst bit_length.simps) simp
    have bl: "bit_length n = Suc (bit_length (n div 2))"
      using "1.prems" by (subst bit_length.simps) simp
    have "2 ^ (bit_length n - 1) = 2 * 2 ^ (bit_length (n div 2) - 1)"
      using pos by (cases "bit_length (n div 2)") (simp_all add: bl)
    also have "\<dots> \<le> 2 * (n div 2)" using IH(1) by simp
    also have "\<dots> \<le> n" by simp
    finally have lower: "2 ^ (bit_length n - 1) \<le> n" .
    have "n < 2 * (n div 2) + 2" by presburger
    also have "\<dots> \<le> 2 * 2 ^ bit_length (n div 2)" using IH(2) by simp
    finally have "n < 2 ^ bit_length n" by (simp add: bl)
    with lower show ?thesis by simp
  qed
qed

lemma bit_length_eq:
  assumes "2 ^ k \<le> n" "n < 2 ^ Suc k"
  shows "bit_length n = Suc k"
proof -
  have n: "0 < n" using assms(1) by (metis gr0I not_le zero_less_numeral zero_less_power)
  note b = bit_length_bounds [OF n]
  have "2 ^ k < (2::nat) ^ bit_length n" using assms(1) b by linarith
  then have 1: "k < bit_length n" by (rule power_less_imp_less_exp [rotated]) simp
  have "(2::nat) ^ (bit_length n - 1) < 2 ^ Suc k" using assms(2) b by linarith
  then have 2: "bit_length n - 1 < Suc k" by (rule power_less_imp_less_exp [rotated]) simp
  from 1 2 show ?thesis by linarith
qed

lemma round_half_even_error: "\<bar>real_of_int (round_half_even y) - y\<bar> \<le> 1 / 2"
  unfolding round_half_even_def Let_def by (auto simp: abs_le_iff)

lemma round_half_even_int [simp]: "round_half_even (real_of_int k) = k"
  by (simp add: round_half_even_def)


lemma bit_length_floor:
  assumes "1 \<le> (x::real)"
  shows "0 < bit_length (nat \<lfloor>x\<rfloor>)"
    and "2 powi (int (bit_length (nat \<lfloor>x\<rfloor>)) - 1) \<le> x"
    and "x < 2 powi (int (bit_length (nat \<lfloor>x\<rfloor>)))"
proof -
  define n where "n = nat \<lfloor>x\<rfloor>"
  define b where "b = bit_length n"
  have n: "0 < n" using assms by (simp add: n_def)
  have b1: "2 ^ (b - 1) \<le> n" and b2: "n < 2 ^ b"
    using bit_length_bounds [OF n] by (simp_all add: b_def)
  have pos: "0 < b"
    using b2 n by (cases b) simp_all
  have nx: "real n \<le> x" "x < real n + 1"
    using assms by (simp_all add: n_def)
  have "real (2 ^ (b - 1)) \<le> real n"
    using b1 by (rule of_nat_mono)
  then have "2 ^ (b - 1) \<le> real n"
    unfolding of_nat_power of_nat_numeral .
  with nx have low: "2 ^ (b - 1) \<le> x" by linarith
  have "n + 1 \<le> 2 ^ b" using b2 by simp
  then have "real (n + 1) \<le> real (2 ^ b)"
    by (rule of_nat_mono)
  then have "real n + 1 \<le> 2 ^ b"
    unfolding of_nat_power of_nat_numeral of_nat_add of_nat_1 .
  with nx have up: "x < 2 ^ b" by linarith
  have i: "int b - 1 = int (b - 1)"
    using pos by simp
  show "0 < bit_length (nat \<lfloor>x\<rfloor>)"
    using pos by (simp add: b_def n_def)
  show "2 powi (int (bit_length (nat \<lfloor>x\<rfloor>)) - 1) \<le> x"
    using low unfolding b_def [symmetric] n_def [symmetric] i by (simp only: power_int_of_nat)
  show "x < 2 powi (int (bit_length (nat \<lfloor>x\<rfloor>)))"
    using up unfolding b_def [symmetric] n_def [symmetric] by (simp only: power_int_of_nat)
qed


lemma to_double_error:
  assumes "1 \<le> x"
  shows "\<bar>to_double x - x\<bar> \<le> x / 2 ^ 53"
proof -
  define b where "b = int (bit_length (nat \<lfloor>x\<rfloor>))"
  define e where "e = b - 53"
  define y where "y = x * 2 powi (- e)"
  define p where "p = (2::real) powi e"
  have p: "0 < p" by (simp add: p_def)
  have td: "to_double x = real_of_int (round_half_even y) * p"
    by (simp add: to_double_def Let_def b_def e_def y_def p_def)
  have x: "x = y * p"
    by (simp add: y_def p_def power_int_minus)
  have "to_double x - x = (real_of_int (round_half_even y) - y) * p"
    unfolding td using x by (simp add: algebra_simps)
  then have "\<bar>to_double x - x\<bar> = \<bar>real_of_int (round_half_even y) - y\<bar> * p"
    using p by (simp add: abs_mult)
  also have "\<dots> \<le> 1 / 2 * p"
    using p round_half_even_error [of y] by (intro mult_right_mono) simp_all
  also have "1 / 2 * p = 2 powi (b - 1) / 2 ^ 53"
  proof -
    have "(2::real) powi (b - 1) = 2 powi (e + 52)" by (simp add: e_def)
    also have "\<dots> = p * 2 powi 52" by (simp add: power_int_add p_def)
    also have "\<dots> = p * 2 ^ 52" by (simp add: power_int_def)
    finally show ?thesis by simp
  qed
  also have "\<dots> \<le> x / 2 ^ 53"
    using bit_length_floor(2) [OF assms] unfolding b_def [symmetric]
    by (rule divide_right_mono) simp
  finally show ?thesis .
qed


lemma to_double_int:
  assumes "1 \<le> m" "m < 2 ^ 53"
  shows "to_double (real_of_int m) = real_of_int m"
proof -
  define n where "n = nat m"
  define b where "b = bit_length n"
  have n: "0 < n" using assms by (simp add: n_def)
  have "int n < 2 ^ 53" using assms by (simp add: n_def)
  then have "int n < int (2 ^ 53)" by simp
  then have n53: "n < 2 ^ 53" by (simp only: of_nat_less_iff)
  have "2 ^ (b - 1) \<le> n"
    using bit_length_bounds [OF n] by (simp add: b_def)
  with n53 have "(2::nat) ^ (b - 1) < 2 ^ 53" by linarith
  then have "b - 1 < 53" by (rule power_less_imp_less_exp [rotated]) simp
  then have b: "b \<le> 53" by simp
  define k where "k = 53 - b"
  have e: "int b - 53 = - int k" using b by (simp add: k_def)
  have "real_of_int m * 2 powi (int k) = real_of_int (m * 2 ^ k)"
    by (simp add: power_int_of_nat)
  then have r: "round_half_even (real_of_int m * 2 powi (int k)) = m * 2 ^ k"
    by (simp only: round_half_even_int)
  have "to_double (real_of_int m) =
      real_of_int (round_half_even (real_of_int m * 2 powi (int k))) * 2 powi (- int k)"
    by (simp add: to_double_def Let_def n_def [symmetric] b_def [symmetric] e)
  also have "\<dots> = real_of_int m * 2 ^ k * 2 powi (- int k)"
    by (simp only: r of_int_mult of_int_power of_int_numeral)
  also have "\<dots> = real_of_int m"
    by (simp add: power_int_minus power_int_of_nat)
  finally show ?thesis .
qed


lemma to_double_eval:
  assumes "2 ^ k \<le> nat \<lfloor>x\<rfloor>" "nat \<lfloor>x\<rfloor> < 2 ^ Suc k"
    and "round_half_even (x * 2 powi (52 - int k)) = r"
  shows "to_double x = real_of_int r * 2 powi (int k - 52)"
proof -
  have "bit_length (nat \<lfloor>x\<rfloor>) = Suc k"
    using assms(1,2) by (rule bit_length_eq)
  then show ?thesis
    using assms(3) by (simp add: to_double_def Let_def)
qed

lemma double_0_1_value: "double_0_1 = 3602879701896397 / 2 ^ 55"
  by (simp add: double_0_1_def round_half_even_def Let_def)


lemma double_tenth:
  assumes "odd m" "100 \<le> m" "m < 2 ^ 52"
  shows "\<lfloor>to_double (to_double (real_of_int m) * double_0_1)\<rfloor> = m div 10"
proof -
  define q where "q = m div 10"
  define d where "d = m mod 10"
  define t where "t = real_of_int m / 10"
  define x where "x = real_of_int m * double_0_1"
  have m: "m = 10 * q + d" by (simp add: q_def d_def)
  have "1 \<le> d \<and> d \<le> 9" using assms(1) unfolding d_def by presburger
  then have d: "1 \<le> real_of_int d" "real_of_int d \<le> 9" by simp_all
  have "real_of_int m = 10 * real_of_int q + real_of_int d"
    by (subst m) simp
  then have t: "real_of_int q + 1 / 10 \<le> t" "t \<le> real_of_int q + 9 / 10"
    using d by (simp_all add: t_def)
  have "real_of_int m < 2 ^ 52" using assms(3) by (simp flip: of_int_less_iff)
  then have t52: "t < 2 ^ 52 / 10" by (simp add: t_def)
  have "100 \<le> real_of_int m" using assms(2) by simp
  then have t10: "10 \<le> t" by (simp add: t_def)
  have x: "x = t + t / 2 ^ 54" by (simp add: x_def t_def double_0_1_value)
  have x1: "1 \<le> x" using t10 unfolding x by simp
  have xe: "x / 2 ^ 53 = t / 2 ^ 53 + t / 2 ^ 107" unfolding x by simp
  have s1: "t / 2 ^ 53 < 1 / 20" using t52 by simp
  have s2: "t / 2 ^ 54 < 1 / 40" using t52 by simp
  have s3: "t / 2 ^ 107 < 1 / 40" using t52 by simp
  have s4: "0 \<le> t / 2 ^ 54" using t10 by simp
  have "\<bar>to_double x - x\<bar> \<le> x / 2 ^ 53" using x1 by (rule to_double_error)
  then have lo: "x - x / 2 ^ 53 \<le> to_double x" and hi: "to_double x \<le> x + x / 2 ^ 53"
    by linarith+
  have "real_of_int q \<le> to_double x"
    using lo t(1) s1 s3 s4 x xe by linarith
  moreover have "to_double x < real_of_int q + 1"
    using hi t(2) s1 s2 s3 x xe by linarith
  ultimately have "\<lfloor>to_double x\<rfloor> = q" by (rule floor_unique)
  moreover have "to_double (real_of_int m) = real_of_int m"
    using assms by (intro to_double_int) simp_all
  ultimately show ?thesis by (simp add: x_def q_def)
qed

lemma double_tenth_large:
  "\<lfloor>to_double (to_double (real_of_int 7237655676911099) * double_0_1)\<rfloor> = 723765567691110"
proof -
  have a: "to_double (real_of_int 7237655676911099) = real_of_int 7237655676911099"
    by (rule to_double_int) simp_all
  have r: "round_half_even (7237655676911099 * double_0_1 * 2 powi (52 - int 49)) = 5790124541528880"
    by (simp add: round_half_even_def double_0_1_value Let_def)
  have "to_double (7237655676911099 * double_0_1) = real_of_int 5790124541528880 * 2 powi (int 49 - 52)"
    by (rule to_double_eval [OF _ _ r]) (simp_all add: double_0_1_value)
  then show ?thesis using a by simp
qed

subsection \<open>The loops of the reducer\<close>

lemma dadd_dadd: "dadd (dadd x a) b = dadd x (a + b)"
  by (cases x) simp_all

lemma clamp_B_length [simp]:
  "length (B1 (clamp_B i r)) = length (B1 r)" "length (B2 (clamp_B i r)) = length (B2 r)"
  by (simp_all add: clamp_B_def Let_def)

lemma clamp_B_frame [simp]:
  "N (clamp_B i r) = N r"
  "probability_extinction (clamp_B i r) = probability_extinction r"
  "probability_fixation (clamp_B i r) = probability_fixation r"
  "time_extinction (clamp_B i r) = time_extinction r"
  "time_fixation (clamp_B i r) = time_fixation r"
  "count_before_extinction (clamp_B i r) = count_before_extinction r"
  by (simp_all add: clamp_B_def Let_def)

lemma fold_clamp_B_length [simp]:
  "length (B1 (fold clamp_B [0..<k] r)) = length (B1 r)"
  "length (B2 (fold clamp_B [0..<k] r)) = length (B2 r)"
  by (induction k) simp_all

lemma fold_clamp_B_frame [simp]:
  "N (fold clamp_B [0..<k] r) = N r"
  "probability_extinction (fold clamp_B [0..<k] r) = probability_extinction r"
  "probability_fixation (fold clamp_B [0..<k] r) = probability_fixation r"
  "time_extinction (fold clamp_B [0..<k] r) = time_extinction r"
  "time_fixation (fold clamp_B [0..<k] r) = time_fixation r"
  "count_before_extinction (fold clamp_B [0..<k] r) = count_before_extinction r"
  by (induction k) simp_all

lemma clamp_B_B1:
  "B1 (clamp_B i r) = (if B1 r ! i < 0 then (B1 r)[i := 0] else B1 r)"
  by (simp add: clamp_B_def Let_def)

lemma clamp_B_B2:
  "i < length (B1 r) \<Longrightarrow> B2 (clamp_B i r) = (B2 r)[i := 1 - max 0 (B1 r ! i)]"
  by (simp add: clamp_B_def Let_def max_def)

lemma fold_clamp_B_B1:
  "k \<le> length (B1 r) \<Longrightarrow> i < length (B1 r) \<Longrightarrow>
   B1 (fold clamp_B [0..<k] r) ! i = (if i < k then max 0 (B1 r ! i) else B1 r ! i)"
proof (induction k)
  case 0
  then show ?case by simp
next
  case (Suc k)
  then show ?case
    by (auto simp: clamp_B_B1 nth_list_update less_Suc_eq)
qed

lemma fold_clamp_B_B2:
  "k \<le> length (B1 r) \<Longrightarrow> k \<le> length (B2 r) \<Longrightarrow> i < length (B2 r) \<Longrightarrow>
   B2 (fold clamp_B [0..<k] r) ! i = (if i < k then 1 - max 0 (B1 r ! i) else B2 r ! i)"
proof (induction k)
  case 0
  then show ?case by simp
next
  case (Suc k)
  then show ?case
    by (auto simp: clamp_B_B2 nth_list_update less_Suc_eq fold_clamp_B_B1)
qed

lemma memcpy_nth: "length src = k \<Longrightarrow> i < k \<Longrightarrow> memcpy dst src k ! i = src ! i"
  by (simp add: memcpy_def nth_append)

lemma memcpy_length: "length src = k \<Longrightarrow> k \<le> length dst \<Longrightarrow> length (memcpy dst src k) = length dst"
  by (simp add: memcpy_def)

lemma store_B_B1:
  assumes "length rhs = m" "m \<le> length (B1 r)" "i < m"
  shows "B1 (store_B m rhs r) ! i = max 0 (rhs ! i)"
  using assms by (simp add: store_B_def fold_clamp_B_B1 memcpy_length memcpy_nth)

lemma store_B_B2:
  assumes "length rhs = m" "m \<le> length (B1 r)" "m \<le> length (B2 r)" "i < m"
  shows "B2 (store_B m rhs r) ! i = 1 - max 0 (rhs ! i)"
  using assms by (simp add: store_B_def fold_clamp_B_B2 memcpy_length memcpy_nth)

lemma store_B_frame [simp]:
  "N (store_B m rhs r) = N r"
  "probability_extinction (store_B m rhs r) = probability_extinction r"
  "probability_fixation (store_B m rhs r) = probability_fixation r"
  "time_extinction (store_B m rhs r) = time_extinction r"
  "time_fixation (store_B m rhs r) = time_fixation r"
  "count_before_extinction (store_B m rhs r) = count_before_extinction r"
  by (simp_all add: store_B_def)

lemma clamp_N_N:
  "N (clamp_N i r) = (if N r ! i < 0 then (N r)[i := 0] else N r)"
  by (simp add: clamp_N_def)

lemma clamp_N_frame [simp]:
  "B1 (clamp_N i r) = B1 r"
  "B2 (clamp_N i r) = B2 r"
  "probability_extinction (clamp_N i r) = probability_extinction r"
  "probability_fixation (clamp_N i r) = probability_fixation r"
  "time_extinction (clamp_N i r) = time_extinction r"
  "time_fixation (clamp_N i r) = time_fixation r"
  "count_before_extinction (clamp_N i r) = count_before_extinction r"
  by (simp_all add: clamp_N_def)

lemma fold_clamp_N_frame [simp]:
  "B1 (fold clamp_N [0..<k] r) = B1 r"
  "B2 (fold clamp_N [0..<k] r) = B2 r"
  "probability_extinction (fold clamp_N [0..<k] r) = probability_extinction r"
  "probability_fixation (fold clamp_N [0..<k] r) = probability_fixation r"
  "time_extinction (fold clamp_N [0..<k] r) = time_extinction r"
  "time_fixation (fold clamp_N [0..<k] r) = time_fixation r"
  "count_before_extinction (fold clamp_N [0..<k] r) = count_before_extinction r"
  by (induction k) simp_all

lemma fold_clamp_N_length [simp]:
  "length (N (fold clamp_N [0..<k] r)) = length (N r)"
  by (induction k) (simp_all add: clamp_N_N)



lemma store_N_frame [simp]:
  "B1 (store_N m rhs r) = B1 r"
  "B2 (store_N m rhs r) = B2 r"
  "probability_extinction (store_N m rhs r) = probability_extinction r"
  "probability_fixation (store_N m rhs r) = probability_fixation r"
  "time_extinction (store_N m rhs r) = time_extinction r"
  "time_fixation (store_N m rhs r) = time_fixation r"
  "count_before_extinction (store_N m rhs r) = count_before_extinction r"
  by (simp_all add: store_N_def)

lemma summary_step_frame [simp]:
  "B1 (summary_step i r) = B1 r"
  "B2 (summary_step i r) = B2 r"
  "N (summary_step i r) = N r"
  "probability_extinction (summary_step i r) = probability_extinction r"
  "probability_fixation (summary_step i r) = probability_fixation r"
  by (simp_all add: summary_step_def)

lemma summary_step_sums:
  "time_extinction (summary_step i r) = dadd (time_extinction r) (B1 r ! i * N r ! i)"
  "time_fixation (summary_step i r) = dadd (time_fixation r) (B2 r ! i * N r ! i)"
  "count_before_extinction (summary_step i r) =
     dadd (count_before_extinction r) ((N r ! i * B1 r ! i) * real (i + 1))"
  by (simp_all add: summary_step_def)

lemma fold_summary_step_frame [simp]:
  "B1 (fold summary_step [0..<k] r) = B1 r"
  "B2 (fold summary_step [0..<k] r) = B2 r"
  "N (fold summary_step [0..<k] r) = N r"
  "probability_extinction (fold summary_step [0..<k] r) = probability_extinction r"
  "probability_fixation (fold summary_step [0..<k] r) = probability_fixation r"
  by (induction k) simp_all

lemma fold_summary_step_time_extinction:
  "time_extinction (fold summary_step [0..<k] r) =
   dadd (time_extinction r) (\<Sum>i\<leftarrow>[0..<k]. B1 r ! i * N r ! i)"
proof (induction k)
  case 0
  show ?case by (cases "time_extinction r") simp_all
next
  case (Suc k)
  then show ?case by (simp add: summary_step_sums dadd_dadd)
qed

lemma fold_summary_step_time_fixation:
  "time_fixation (fold summary_step [0..<k] r) =
   dadd (time_fixation r) (\<Sum>i\<leftarrow>[0..<k]. B2 r ! i * N r ! i)"
proof (induction k)
  case 0
  show ?case by (cases "time_fixation r") simp_all
next
  case (Suc k)
  then show ?case by (simp add: summary_step_sums dadd_dadd)
qed

lemma fold_summary_step_count:
  "count_before_extinction (fold summary_step [0..<k] r) =
   dadd (count_before_extinction r) (\<Sum>i\<leftarrow>[0..<k]. (N r ! i * B1 r ! i) * real (i + 1))"
proof (induction k)
  case 0
  show ?case by (cases "count_before_extinction r") simp_all
next
  case (Suc k)
  then show ?case by (simp add: summary_step_sums dadd_dadd)
qed

lemma summary_frame [simp]:
  "B1 (summary m r) = B1 r" "B2 (summary m r) = B2 r" "N (summary m r) = N r"
  by (simp_all add: summary_def Let_def)

lemma summary_time_extinction:
  "time_extinction (summary m r) =
     (if B1 r ! 0 \<le> 0 then NaN
      else ddiv (dadd (time_extinction r) (\<Sum>i\<leftarrow>[0..<m]. B1 r ! i * N r ! i)) (B1 r ! 0))"
  by (simp add: summary_def Let_def fold_summary_step_time_extinction)

lemma summary_time_fixation:
  "time_fixation (summary m r) =
     (if B2 r ! 0 \<le> 0 then NaN
      else ddiv (dadd (time_fixation r) (\<Sum>i\<leftarrow>[0..<m]. B2 r ! i * N r ! i)) (B2 r ! 0))"
  by (simp add: summary_def Let_def fold_summary_step_time_fixation)

lemma summary_count:
  "count_before_extinction (summary m r) =
     ddiv (dadd (count_before_extinction r)
             (\<Sum>i\<leftarrow>[0..<m]. (N r ! i * B1 r ! i) * real (i + 1))) (B1 r ! 0)"
  by (simp add: summary_def Let_def fold_summary_step_count)

lemma summary_probability_extinction:
  "probability_extinction (summary m r) = (if B1 r ! 0 \<le> 0 then Fin 0 else Fin (B1 r ! 0))"
  by (simp add: summary_def Let_def)

lemma summary_probability_fixation:
  "probability_fixation (summary m r) = (if B2 r ! 0 \<le> 0 then Fin 0 else Fin (B2 r ! 0))"
  by (simp add: summary_def Let_def)

lemma wfes_unfold:
  "wfes ext w r z =
     (if population_size w \<le> - (2 ^ 62) \<or> 2 ^ 62 \<le> population_size w
      then ([], Undefined)
      else
     (let m = nat (matrix_size w);
          c1 = analyze_call ext w z; c2 = factorize_call ext w z;
          c3 = forward_solve_call ext w z; c4 = transpose_solve_call ext w z;
          c5 = release_call ext w z
      in if r_error (pardiso_64 ext c1) \<noteq> 0
         then ([Pardiso c1, Printf ''ERROR during symbolic factorization: ''
                  (r_error (pardiso_64 ext c1))], Exit 11)
         else if r_error (pardiso_64 ext c2) \<noteq> 0
         then ([Pardiso c1, Pardiso c2, Printf ''ERROR during numeric factorization: ''
                  (r_error (pardiso_64 ext c2))], Exit 22)
         else if r_error (pardiso_64 ext c3) \<noteq> 0
         then ([Pardiso c1, Pardiso c2, Pardiso c3, Printf ''ERROR during solution: ''
                  (r_error (pardiso_64 ext c3))], Exit 33)
         else if length (B1 r) < m \<or> length (B2 r) < m
         then ([Pardiso c1, Pardiso c2, Pardiso c3], Undefined)
         else if m = 0
         then ([Pardiso c1, Pardiso c2, Pardiso c3, Println ''Solution successful!''],
               Undefined)
         else if r_error (pardiso_64 ext c4) \<noteq> 0
         then ([Pardiso c1, Pardiso c2, Pardiso c3, Println ''Solution successful!'',
                Pardiso c4, Printf ''ERROR during solution: ''
                  (r_error (pardiso_64 ext c4))], Exit 33)
         else if length (N r) < m
         then ([Pardiso c1, Pardiso c2, Pardiso c3, Println ''Solution successful!'',
                Pardiso c4], Undefined)
         else ([Pardiso c1, Pardiso c2, Pardiso c3, Println ''Solution successful!'',
                Pardiso c4, Pardiso c5],
               Return (reduce m (forward_solution ext w z) (transpose_solution ext w z) r))))"
  unfolding wfes_def analyze_call_def factorize_call_def forward_solve_call_def
    transpose_solve_call_def release_call_def forward_solution_def transpose_solution_def
    reduce_def Let_def
  by (rule refl)

subsection \<open>The driver, path by path\<close>

lemma wfes_Return:
  assumes "wfes ext w r z = (tr, Return r')"
  shows "tr = [Pardiso (analyze_call ext w z), Pardiso (factorize_call ext w z),
               Pardiso (forward_solve_call ext w z), Println ''Solution successful!'',
               Pardiso (transpose_solve_call ext w z), Pardiso (release_call ext w z)]"
    and "r' = reduce (nat (matrix_size w)) (forward_solution ext w z)
                (transpose_solution ext w z) r"
    and "0 < nat (matrix_size w)"
    and "nat (matrix_size w) \<le> length (B1 r)"
    and "nat (matrix_size w) \<le> length (B2 r)"
    and "nat (matrix_size w) \<le> length (N r)"
    and "- (2 ^ 62) < population_size w"
    and "population_size w < 2 ^ 62"
  using assms by (simp_all add: wfes_unfold Let_def split: if_splits)

lemma wfes_Return_status:
  assumes "wfes ext w r z = (tr, Return r')"
  shows "r_error (pardiso_64 ext (analyze_call ext w z)) = 0"
    and "r_error (pardiso_64 ext (factorize_call ext w z)) = 0"
    and "r_error (pardiso_64 ext (forward_solve_call ext w z)) = 0"
    and "r_error (pardiso_64 ext (transpose_solve_call ext w z)) = 0"
  using assms by (simp_all add: wfes_unfold Let_def split: if_splits)

lemma wfes_Exit:
  assumes "wfes ext w r z = (tr, Exit k)"
  shows "(k = 11 \<and> r_error (pardiso_64 ext (analyze_call ext w z)) \<noteq> 0 \<and>
          tr = [Pardiso (analyze_call ext w z),
                Printf ''ERROR during symbolic factorization: ''
                  (r_error (pardiso_64 ext (analyze_call ext w z)))]) \<or>
         (k = 22 \<and> r_error (pardiso_64 ext (factorize_call ext w z)) \<noteq> 0 \<and>
          tr = [Pardiso (analyze_call ext w z), Pardiso (factorize_call ext w z),
                Printf ''ERROR during numeric factorization: ''
                  (r_error (pardiso_64 ext (factorize_call ext w z)))]) \<or>
         (k = 33 \<and> r_error (pardiso_64 ext (forward_solve_call ext w z)) \<noteq> 0 \<and>
          tr = [Pardiso (analyze_call ext w z), Pardiso (factorize_call ext w z),
                Pardiso (forward_solve_call ext w z),
                Printf ''ERROR during solution: ''
                  (r_error (pardiso_64 ext (forward_solve_call ext w z)))]) \<or>
         (k = 33 \<and> r_error (pardiso_64 ext (transpose_solve_call ext w z)) \<noteq> 0 \<and>
          tr = [Pardiso (analyze_call ext w z), Pardiso (factorize_call ext w z),
                Pardiso (forward_solve_call ext w z), Println ''Solution successful!'',
                Pardiso (transpose_solve_call ext w z),
                Printf ''ERROR during solution: ''
                  (r_error (pardiso_64 ext (transpose_solve_call ext w z)))])"
  using assms by (auto simp add: wfes_unfold Let_def split: if_splits)

lemma length_forward_solution [simp]: "length (forward_solution ext w z) = nat (matrix_size w)"
  by (simp add: forward_solution_def)

lemma length_transpose_solution [simp]: "length (transpose_solution ext w z) = nat (matrix_size w)"
  by (simp add: transpose_solution_def)

lemma reduce_B1:
  "length x1 = m \<Longrightarrow> m \<le> length (B1 r) \<Longrightarrow> i < m \<Longrightarrow> B1 (reduce m x1 x2 r) ! i = max 0 (x1 ! i)"
  by (simp add: reduce_def store_B_B1)

lemma reduce_B2:
  "length x1 = m \<Longrightarrow> m \<le> length (B1 r) \<Longrightarrow> m \<le> length (B2 r) \<Longrightarrow> i < m \<Longrightarrow>
   B2 (reduce m x1 x2 r) ! i = 1 - max 0 (x1 ! i)"
  by (simp add: reduce_def store_B_B2)


lemma reduce_time_extinction:
  "time_extinction (reduce m x1 x2 r) =
     (if B1 (reduce m x1 x2 r) ! 0 \<le> 0 then NaN
      else ddiv (dadd (time_extinction r)
                   (\<Sum>i\<leftarrow>[0..<m]. B1 (reduce m x1 x2 r) ! i * N (reduce m x1 x2 r) ! i))
             (B1 (reduce m x1 x2 r) ! 0))"
  by (simp add: reduce_def summary_time_extinction)

lemma reduce_time_fixation:
  "time_fixation (reduce m x1 x2 r) =
     (if B2 (reduce m x1 x2 r) ! 0 \<le> 0 then NaN
      else ddiv (dadd (time_fixation r)
                   (\<Sum>i\<leftarrow>[0..<m]. B2 (reduce m x1 x2 r) ! i * N (reduce m x1 x2 r) ! i))
             (B2 (reduce m x1 x2 r) ! 0))"
  by (simp add: reduce_def summary_time_fixation)

lemma reduce_count:
  "count_before_extinction (reduce m x1 x2 r) =
     ddiv (dadd (count_before_extinction r)
             (\<Sum>i\<leftarrow>[0..<m]. (N (reduce m x1 x2 r) ! i * B1 (reduce m x1 x2 r) ! i) * real (i + 1)))
       (B1 (reduce m x1 x2 r) ! 0)"
  by (simp add: reduce_def summary_count)

lemma reduce_probability_extinction:
  "probability_extinction (reduce m x1 x2 r) =
     (if B1 (reduce m x1 x2 r) ! 0 \<le> 0 then Fin 0 else Fin (B1 (reduce m x1 x2 r) ! 0))"
  by (simp add: reduce_def summary_probability_extinction)

lemma reduce_probability_fixation:
  "probability_fixation (reduce m x1 x2 r) =
     (if B2 (reduce m x1 x2 r) ! 0 \<le> 0 then Fin 0 else Fin (B2 (reduce m x1 x2 r) ! 0))"
  by (simp add: reduce_def summary_probability_fixation)

lemma upt_3: "[0..<3] = [0, 1, 2]"
  by (simp add: upt_conv_Cons)

lemma call_sel [simp]:
  "p_pt (call pt ph msize vals A ip rhs) = pt"
  "p_phase (call pt ph msize vals A ip rhs) = ph"
  "p_n (call pt ph msize vals A ip rhs) = msize"
  "p_a (call pt ph msize vals A ip rhs) = vals"
  "p_ia (call pt ph msize vals A ip rhs) = row_index A"
  "p_ja (call pt ph msize vals A ip rhs) = cols A"
  "p_iparm (call pt ph msize vals A ip rhs) = ip"
  "p_b (call pt ph msize vals A ip rhs) = rhs"
  by (simp_all add: call_def)

lemma phases [simp]:
  "p_phase (analyze_call ext w z) = 11"
  "p_phase (factorize_call ext w z) = 22"
  "p_phase (forward_solve_call ext w z) = 33"
  "p_phase (transpose_solve_call ext w z) = 33"
  "p_phase (release_call ext w z) = - 1"
  by (simp_all add: analyze_call_def factorize_call_def forward_solve_call_def
      transpose_solve_call_def release_call_def Let_def)

lemma modes [simp]:
  "p_iparm (analyze_call ext w z) 11 = 0"
  "p_iparm (forward_solve_call ext w z) 11 = 0"
  "p_iparm (transpose_solve_call ext w z) 11 = 2"
  by (simp_all add: analyze_call_def forward_solve_call_def transpose_solve_call_def
      iparm_setup_def Let_def)

lemma ex_matrix_size [simp]: "matrix_size ex_parameters = 3"
  by (simp add: matrix_size_def ex_parameters_def)

lemma ex_population_size [simp]: "population_size ex_parameters = 2"
  by (simp add: ex_parameters_def)

lemma ex_status [simp]:
  "r_error (pardiso_64 (ex_externals x1 x2 st) c) = st (p_phase c) (p_iparm c 11)"
  by (simp add: ex_externals_def ex_pardiso_def)

lemma ex_factorize_mode [simp]:
  "p_iparm (factorize_call (ex_externals x1 x2 st) w z) 11 = 0"
  by (simp add: factorize_call_def Let_def ex_externals_def ex_pardiso_def)

lemma ex_forward_solution [simp]:
  "length x1 = 3 \<Longrightarrow> forward_solution (ex_externals x1 x2 st) ex_parameters z = x1"
proof -
  assume len: "length x1 = 3"
  have "forward_solution (ex_externals x1 x2 st) ex_parameters z = map ((!) x1) [0..<3]"
    using modes(2) [of "ex_externals x1 x2 st" ex_parameters z]
    by (simp add: forward_solution_def ex_externals_def ex_pardiso_def)
  also have "\<dots> = x1"
    using len map_nth [of x1] by simp
  finally show ?thesis .
qed

lemma ex_transpose_solution [simp]:
  "length x2 = 3 \<Longrightarrow> transpose_solution (ex_externals x1 x2 st) ex_parameters z = x2"
proof -
  assume len: "length x2 = 3"
  have "transpose_solution (ex_externals x1 x2 st) ex_parameters z = map ((!) x2) [0..<3]"
    using modes(3) [of "ex_externals x1 x2 st" ex_parameters z]
    by (simp add: transpose_solution_def ex_externals_def ex_pardiso_def)
  also have "\<dots> = x2"
    using len map_nth [of x2] by simp
  finally show ?thesis .
qed

lemma ex_wfes_returns:
  assumes "length x1 = 3" "length x2 = 3"
    and "length (B1 r) = 3" "length (B2 r) = 3" "length (N r) = 3"
  shows "wfes (ex_externals x1 x2 (\<lambda>ph mode. 0)) ex_parameters r z =
     ([Pardiso (analyze_call (ex_externals x1 x2 (\<lambda>ph mode. 0)) ex_parameters z),
       Pardiso (factorize_call (ex_externals x1 x2 (\<lambda>ph mode. 0)) ex_parameters z),
       Pardiso (forward_solve_call (ex_externals x1 x2 (\<lambda>ph mode. 0)) ex_parameters z),
       Println ''Solution successful!'',
       Pardiso (transpose_solve_call (ex_externals x1 x2 (\<lambda>ph mode. 0)) ex_parameters z),
       Pardiso (release_call (ex_externals x1 x2 (\<lambda>ph mode. 0)) ex_parameters z)],
      Return (reduce 3 x1 x2 r))"
  using assms by (simp add: wfes_unfold Let_def)

lemmas reduce_eval = reduce_def ex_statistics_def store_B_def store_N_def summary_def
  summary_step_def clamp_B_def clamp_N_def memcpy_def Let_def upt_3

lemma ex_reduce:
  "reduce 3 [1 / 2, - 1 / 4, 1 / 8] [1, - 1, 2] ex_statistics = ex_result"
  by (simp add: reduce_eval ex_result_def)

lemma ex_reduce_offset:
  "reduce 3 [1 / 2, - 1 / 4, 1 / 8] [1, - 1, 2]
     (ex_statistics\<lparr>time_extinction := Fin 1, time_fixation := Fin 2,
        count_before_extinction := Fin 3\<rparr>) = ex_result_offset"
  by (simp add: reduce_eval ex_result_offset_def)

subsection \<open>The right-hand sides and the calls\<close>

lemma fold_zero_length [simp]: "length (fold (\<lambda>i b. b[i := 0::real]) js b) = length b"
  by (induction js arbitrary: b) simp_all

lemma fold_zero_nth:
  "j < length b \<Longrightarrow>
   fold (\<lambda>i b. b[i := 0::real]) [a..<k] b ! j = (if a \<le> j \<and> j < k then 0 else b ! j)"
proof (induction k)
  case 0
  then show ?case by simp
next
  case (Suc k)
  show ?case
  proof (cases "a \<le> k")
    case True
    then have "[a..<Suc k] = [a..<k] @ [k]" by simp
    with Suc True show ?thesis
      by (auto simp: nth_list_update less_Suc_eq)
  next
    case False
    then show ?thesis by simp
  qed
qed

lemma sojourn_rhs_unit:
  assumes "length rhs = m"
  shows "sojourn_rhs m rhs = map (\<lambda>i. if i = 0 then 1 else 0) [0..<m]"
proof (rule nth_equalityI)
  show "length (sojourn_rhs m rhs) = length (map (\<lambda>i. if i = 0 then 1 else 0 :: real) [0..<m])"
    using assms by (simp add: sojourn_rhs_def)
next
  fix j assume "j < length (sojourn_rhs m rhs)"
  then have j: "j < m" using assms by (simp add: sojourn_rhs_def)
  then show "sojourn_rhs m rhs ! j = map (\<lambda>i. if i = 0 then 1 else 0) [0..<m] ! j"
    using assms by (auto simp: sojourn_rhs_def fold_zero_nth nth_list_update)
qed

lemma extinction_rhs_length [simp]: "length (extinction_rhs ext w) = nat (matrix_size w)"
  by (simp add: extinction_rhs_def)


lemma call_matrix [simp]:
  "p_n (analyze_call ext w z) = matrix_size w"
  "p_n (factorize_call ext w z) = matrix_size w"
  "p_n (forward_solve_call ext w z) = matrix_size w"
  "p_n (transpose_solve_call ext w z) = matrix_size w"
  "p_n (release_call ext w z) = matrix_size w"
  "p_ia (analyze_call ext w z) = row_index (wf_matrix_csr ext w (block_size w) z)"
  "p_ia (factorize_call ext w z) = row_index (wf_matrix_csr ext w (block_size w) z)"
  "p_ia (forward_solve_call ext w z) = row_index (wf_matrix_csr ext w (block_size w) z)"
  "p_ia (transpose_solve_call ext w z) = row_index (wf_matrix_csr ext w (block_size w) z)"
  "p_ia (release_call ext w z) = row_index (wf_matrix_csr ext w (block_size w) z)"
  "p_ja (analyze_call ext w z) = cols (wf_matrix_csr ext w (block_size w) z)"
  "p_ja (factorize_call ext w z) = cols (wf_matrix_csr ext w (block_size w) z)"
  "p_ja (forward_solve_call ext w z) = cols (wf_matrix_csr ext w (block_size w) z)"
  "p_ja (transpose_solve_call ext w z) = cols (wf_matrix_csr ext w (block_size w) z)"
  "p_ja (release_call ext w z) = cols (wf_matrix_csr ext w (block_size w) z)"
  "p_a (analyze_call ext w z) = Some (data (wf_matrix_csr ext w (block_size w) z))"
  "p_a (factorize_call ext w z) = Some (data (wf_matrix_csr ext w (block_size w) z))"
  "p_a (forward_solve_call ext w z) = Some (data (wf_matrix_csr ext w (block_size w) z))"
  "p_a (transpose_solve_call ext w z) = Some (data (wf_matrix_csr ext w (block_size w) z))"
  "p_a (release_call ext w z) = None"
  by (simp_all add: analyze_call_def factorize_call_def forward_solve_call_def
      transpose_solve_call_def release_call_def Let_def)

lemma call_handle [simp]:
  "p_pt (analyze_call ext w z) = (\<lambda>i. 0)"
  "p_pt (factorize_call ext w z) = r_pt (pardiso_64 ext (analyze_call ext w z))"
  "p_pt (forward_solve_call ext w z) = r_pt (pardiso_64 ext (factorize_call ext w z))"
  "p_pt (transpose_solve_call ext w z) = r_pt (pardiso_64 ext (forward_solve_call ext w z))"
  "p_pt (release_call ext w z) = r_pt (pardiso_64 ext (transpose_solve_call ext w z))"
  by (simp_all add: analyze_call_def factorize_call_def forward_solve_call_def
      transpose_solve_call_def release_call_def Let_def)

lemma call_rhs [simp]:
  "p_b (analyze_call ext w z) = None"
  "p_b (factorize_call ext w z) = None"
  "p_b (forward_solve_call ext w z) = Some (extinction_rhs ext w)"
  "p_b (transpose_solve_call ext w z) =
     Some (map (\<lambda>i. if i = 0 then 1 else 0) [0..<nat (matrix_size w)])"
  "p_b (release_call ext w z) = None"
  by (simp_all add: analyze_call_def factorize_call_def forward_solve_call_def
      transpose_solve_call_def release_call_def Let_def sojourn_rhs_unit)

lemma wfes_calls:
  assumes "wfes ext w r z = (tr, out)"
  shows "\<exists>k. pardiso_calls tr =
           take k [analyze_call ext w z, factorize_call ext w z, forward_solve_call ext w z,
                   transpose_solve_call ext w z, release_call ext w z]"
proof -
  let ?cs = "[analyze_call ext w z, factorize_call ext w z, forward_solve_call ext w z,
              transpose_solve_call ext w z, release_call ext w z]"
  have "pardiso_calls tr = take 0 ?cs \<or> pardiso_calls tr = take 1 ?cs \<or>
        pardiso_calls tr = take 2 ?cs \<or> pardiso_calls tr = take 3 ?cs \<or>
        pardiso_calls tr = take 4 ?cs \<or> pardiso_calls tr = take 5 ?cs"
    using assms by (auto simp add: wfes_unfold Let_def split: if_splits)
  then show ?thesis by blast
qed

text \<open>Every run, path by path: the statuses met, the events, the outcome.\<close>

lemma wfes_paths:
  assumes "wfes ext w r z = (tr, out)"
  shows "(tr = [] \<and> out = Undefined) \<or>
    (r_error (pardiso_64 ext (analyze_call ext w z)) \<noteq> 0 \<and>
     tr = [Pardiso (analyze_call ext w z),
           Printf ''ERROR during symbolic factorization: ''
             (r_error (pardiso_64 ext (analyze_call ext w z)))] \<and>
     out = Exit 11) \<or>
    (r_error (pardiso_64 ext (analyze_call ext w z)) = 0 \<and>
     r_error (pardiso_64 ext (factorize_call ext w z)) \<noteq> 0 \<and>
     tr = [Pardiso (analyze_call ext w z), Pardiso (factorize_call ext w z),
           Printf ''ERROR during numeric factorization: ''
             (r_error (pardiso_64 ext (factorize_call ext w z)))] \<and>
     out = Exit 22) \<or>
    (r_error (pardiso_64 ext (analyze_call ext w z)) = 0 \<and>
     r_error (pardiso_64 ext (factorize_call ext w z)) = 0 \<and>
     r_error (pardiso_64 ext (forward_solve_call ext w z)) \<noteq> 0 \<and>
     tr = [Pardiso (analyze_call ext w z), Pardiso (factorize_call ext w z),
           Pardiso (forward_solve_call ext w z),
           Printf ''ERROR during solution: ''
             (r_error (pardiso_64 ext (forward_solve_call ext w z)))] \<and>
     out = Exit 33) \<or>
    (r_error (pardiso_64 ext (analyze_call ext w z)) = 0 \<and>
     r_error (pardiso_64 ext (factorize_call ext w z)) = 0 \<and>
     r_error (pardiso_64 ext (forward_solve_call ext w z)) = 0 \<and>
     (tr = [Pardiso (analyze_call ext w z), Pardiso (factorize_call ext w z),
            Pardiso (forward_solve_call ext w z)] \<or>
      tr = [Pardiso (analyze_call ext w z), Pardiso (factorize_call ext w z),
            Pardiso (forward_solve_call ext w z), Println ''Solution successful!'']) \<and>
     out = Undefined) \<or>
    (r_error (pardiso_64 ext (analyze_call ext w z)) = 0 \<and>
     r_error (pardiso_64 ext (factorize_call ext w z)) = 0 \<and>
     r_error (pardiso_64 ext (forward_solve_call ext w z)) = 0 \<and>
     r_error (pardiso_64 ext (transpose_solve_call ext w z)) \<noteq> 0 \<and>
     tr = [Pardiso (analyze_call ext w z), Pardiso (factorize_call ext w z),
           Pardiso (forward_solve_call ext w z), Println ''Solution successful!'',
           Pardiso (transpose_solve_call ext w z),
           Printf ''ERROR during solution: ''
             (r_error (pardiso_64 ext (transpose_solve_call ext w z)))] \<and>
     out = Exit 33) \<or>
    (r_error (pardiso_64 ext (analyze_call ext w z)) = 0 \<and>
     r_error (pardiso_64 ext (factorize_call ext w z)) = 0 \<and>
     r_error (pardiso_64 ext (forward_solve_call ext w z)) = 0 \<and>
     r_error (pardiso_64 ext (transpose_solve_call ext w z)) = 0 \<and>
     tr = [Pardiso (analyze_call ext w z), Pardiso (factorize_call ext w z),
           Pardiso (forward_solve_call ext w z), Println ''Solution successful!'',
           Pardiso (transpose_solve_call ext w z)] \<and>
     out = Undefined) \<or>
    (r_error (pardiso_64 ext (analyze_call ext w z)) = 0 \<and>
     r_error (pardiso_64 ext (factorize_call ext w z)) = 0 \<and>
     r_error (pardiso_64 ext (forward_solve_call ext w z)) = 0 \<and>
     r_error (pardiso_64 ext (transpose_solve_call ext w z)) = 0 \<and>
     tr = [Pardiso (analyze_call ext w z), Pardiso (factorize_call ext w z),
           Pardiso (forward_solve_call ext w z), Println ''Solution successful!'',
           Pardiso (transpose_solve_call ext w z), Pardiso (release_call ext w z)] \<and>
     (\<exists>r'. out = Return r'))"
  using assms by (auto simp add: wfes_unfold Let_def split: if_splits)

text \<open>A call of a run that reports an error: where it stands and what follows.\<close>

lemma wfes_error:
  assumes "wfes ext w r z = (tr, out)"
    and "k < length (pardiso_calls tr)"
    and "r_error (pardiso_64 ext (pardiso_calls tr ! k)) \<noteq> 0"
  shows "Suc k = length (pardiso_calls tr)"
    and "p_phase (pardiso_calls tr ! k) \<noteq> - 1 \<Longrightarrow> out = Exit (p_phase (pardiso_calls tr ! k))"
    and "p_phase (pardiso_calls tr ! k) \<noteq> - 1 \<Longrightarrow>
         filter (\<lambda>c. p_phase c = - 1) (pardiso_calls tr) = []"
    and "p_phase (pardiso_calls tr ! k) \<noteq> - 1 \<Longrightarrow>
         p_phase (pardiso_calls tr ! k) = 11 \<and> k = 0 \<and>
           last tr = Printf ''ERROR during symbolic factorization: ''
                       (r_error (pardiso_64 ext (pardiso_calls tr ! k))) \<or>
         p_phase (pardiso_calls tr ! k) = 22 \<and> k = 1 \<and>
           last tr = Printf ''ERROR during numeric factorization: ''
                       (r_error (pardiso_64 ext (pardiso_calls tr ! k))) \<or>
         p_phase (pardiso_calls tr ! k) = 33 \<and> (k = 2 \<or> k = 3) \<and>
           last tr = Printf ''ERROR during solution: ''
                       (r_error (pardiso_64 ext (pardiso_calls tr ! k)))"
proof -
  from assms(2) wfes_calls [OF assms(1)] have "k < 5"
    by auto
  then consider "k = 0" | "k = 1" | "k = 2" | "k = 3" | "k = 4"
    by linarith
  then have "Suc k = length (pardiso_calls tr) \<and>
    (p_phase (pardiso_calls tr ! k) \<noteq> - 1 \<longrightarrow>
       out = Exit (p_phase (pardiso_calls tr ! k)) \<and>
       filter (\<lambda>c. p_phase c = - 1) (pardiso_calls tr) = [] \<and>
       (p_phase (pardiso_calls tr ! k) = 11 \<and> k = 0 \<and>
           last tr = Printf ''ERROR during symbolic factorization: ''
                       (r_error (pardiso_64 ext (pardiso_calls tr ! k))) \<or>
         p_phase (pardiso_calls tr ! k) = 22 \<and> k = 1 \<and>
           last tr = Printf ''ERROR during numeric factorization: ''
                       (r_error (pardiso_64 ext (pardiso_calls tr ! k))) \<or>
         p_phase (pardiso_calls tr ! k) = 33 \<and> (k = 2 \<or> k = 3) \<and>
           last tr = Printf ''ERROR during solution: ''
                       (r_error (pardiso_64 ext (pardiso_calls tr ! k)))))"
  proof cases
    case 1
    with wfes_paths [OF assms(1)] assms(2,3) show ?thesis
      by (elim disjE conjE exE) simp_all
  next
    case 2
    with wfes_paths [OF assms(1)] assms(2,3) show ?thesis
      by (elim disjE conjE exE) simp_all
  next
    case 3
    with wfes_paths [OF assms(1)] assms(2,3) show ?thesis
      by (elim disjE conjE exE) simp_all
  next
    case 4
    with wfes_paths [OF assms(1)] assms(2,3) show ?thesis
      by (elim disjE conjE exE) simp_all
  next
    case 5
    with wfes_paths [OF assms(1)] assms(2,3) show ?thesis
      by (elim disjE conjE exE) simp_all
  qed
  then show "Suc k = length (pardiso_calls tr)"
    and "p_phase (pardiso_calls tr ! k) \<noteq> - 1 \<Longrightarrow> out = Exit (p_phase (pardiso_calls tr ! k))"
    and "p_phase (pardiso_calls tr ! k) \<noteq> - 1 \<Longrightarrow>
         filter (\<lambda>c. p_phase c = - 1) (pardiso_calls tr) = []"
    and "p_phase (pardiso_calls tr ! k) \<noteq> - 1 \<Longrightarrow>
         p_phase (pardiso_calls tr ! k) = 11 \<and> k = 0 \<and>
           last tr = Printf ''ERROR during symbolic factorization: ''
                       (r_error (pardiso_64 ext (pardiso_calls tr ! k))) \<or>
         p_phase (pardiso_calls tr ! k) = 22 \<and> k = 1 \<and>
           last tr = Printf ''ERROR during numeric factorization: ''
                       (r_error (pardiso_64 ext (pardiso_calls tr ! k))) \<or>
         p_phase (pardiso_calls tr ! k) = 33 \<and> (k = 2 \<or> k = 3) \<and>
           last tr = Printf ''ERROR during solution: ''
                       (r_error (pardiso_64 ext (pardiso_calls tr ! k)))"
    by simp_all
qed

text \<open>The runs that return.\<close>

lemma wfes_Return_iff:
  assumes "wfes ext w r z = (tr, out)"
  shows "(\<exists>r'. out = Return r') \<longleftrightarrow>
         out \<noteq> Undefined \<and>
         (\<forall>c \<in> set (pardiso_calls tr). p_phase c \<noteq> - 1 \<longrightarrow> r_error (pardiso_64 ext c) = 0)"
  using wfes_paths [OF assms] by (elim disjE conjE exE) auto

subsection \<open>The runs of the concrete inputs\<close>

lemma ex_reduce_degenerate:
  "reduce 3 [- 1 / 10, 1 / 2, 1 / 4] [1, 1, 1] ex_statistics = ex_result_degenerate"
  by (simp add: reduce_eval ex_result_degenerate_def)

lemma ex_reduce_noise:
  "reduce 3 [3 / 2, 1 / 4, 1 / 8] [1, - 1, 2] ex_statistics = ex_result_noise"
  by (simp add: reduce_eval ex_result_noise_def)

lemma ex_returned:
  "snd (wfes (ex_externals [1 / 2, - 1 / 4, 1 / 8] [1, - 1, 2] (\<lambda>ph mode. 0))
          ex_parameters ex_statistics 0) = Return ex_result"
  by (simp add: ex_wfes_returns ex_statistics_def flip: ex_reduce)

lemma ex_returned_offset:
  "snd (wfes (ex_externals [1 / 2, - 1 / 4, 1 / 8] [1, - 1, 2] (\<lambda>ph mode. 0)) ex_parameters
          (ex_statistics\<lparr>time_extinction := Fin 1, time_fixation := Fin 2,
             count_before_extinction := Fin 3\<rparr>) 0) = Return ex_result_offset"
  by (simp add: ex_wfes_returns ex_statistics_def flip: ex_reduce_offset)

lemma ex_returned_degenerate:
  "snd (wfes (ex_externals [- 1 / 10, 1 / 2, 1 / 4] [1, 1, 1] (\<lambda>ph mode. 0))
          ex_parameters ex_statistics 0) = Return ex_result_degenerate"
  by (simp add: ex_wfes_returns ex_statistics_def flip: ex_reduce_degenerate)

lemma ex_returned_noise:
  "snd (wfes (ex_externals [3 / 2, 1 / 4, 1 / 8] [1, - 1, 2] (\<lambda>ph mode. 0))
          ex_parameters ex_statistics 0) = Return ex_result_noise"
  by (simp add: ex_wfes_returns ex_statistics_def flip: ex_reduce_noise)



lemma run_of_snd: "snd x = y \<Longrightarrow> x = (fst x, y)"
  by (simp add: prod_eq_iff)


lemma ddiv_dadd_exact:
  "0 < b \<Longrightarrow> ddiv (dadd x s) b = Fin (s / b) \<longleftrightarrow> x = Fin 0"
  by (cases x) (auto simp: field_simps)

lemma ex_extinction_rhs [simp]:
  "extinction_rhs (ex_externals x1 x2 st) ex_parameters = [81 / 256, 1 / 16, 1 / 256]"
  by (simp add: extinction_rhs_def ex_externals_def ex_parameters_def pow_def matrix_size_def
      upt_3 power_divide)

lemma ex_wfes_analyze_fails:
  "wfes (ex_externals x1 x2 (\<lambda>ph mode. if ph = 11 then - 1 else 0)) ex_parameters r z =
     ([Pardiso (analyze_call (ex_externals x1 x2 (\<lambda>ph mode. if ph = 11 then - 1 else 0))
                  ex_parameters z),
       Printf ''ERROR during symbolic factorization: '' (- 1)], Exit 11)"
  by (simp add: wfes_unfold Let_def)

lemma ex_wfes_factorize_fails:
  "wfes (ex_externals x1 x2 (\<lambda>ph mode. if ph = 22 then - 2 else 0)) ex_parameters r z =
     ([Pardiso (analyze_call (ex_externals x1 x2 (\<lambda>ph mode. if ph = 22 then - 2 else 0))
                  ex_parameters z),
       Pardiso (factorize_call (ex_externals x1 x2 (\<lambda>ph mode. if ph = 22 then - 2 else 0))
                  ex_parameters z),
       Printf ''ERROR during numeric factorization: '' (- 2)], Exit 22)"
  by (simp add: wfes_unfold Let_def)

lemma ex_wfes_forward_fails:
  "wfes (ex_externals x1 x2 (\<lambda>ph mode. if ph = 33 \<and> mode = 0 then - 3 else 0))
       ex_parameters r z =
     ([Pardiso (analyze_call
          (ex_externals x1 x2 (\<lambda>ph mode. if ph = 33 \<and> mode = 0 then - 3 else 0))
          ex_parameters z),
       Pardiso (factorize_call
          (ex_externals x1 x2 (\<lambda>ph mode. if ph = 33 \<and> mode = 0 then - 3 else 0))
          ex_parameters z),
       Pardiso (forward_solve_call
          (ex_externals x1 x2 (\<lambda>ph mode. if ph = 33 \<and> mode = 0 then - 3 else 0))
          ex_parameters z),
       Printf ''ERROR during solution: '' (- 3)], Exit 33)"
  by (simp add: wfes_unfold Let_def)

lemma ex_wfes_transpose_fails:
  assumes "length (B1 r) = 3" "length (B2 r) = 3"
  shows "wfes (ex_externals x1 x2 (\<lambda>ph mode. if ph = 33 \<and> mode = 2 then - 3 else 0))
       ex_parameters r z =
     ([Pardiso (analyze_call
          (ex_externals x1 x2 (\<lambda>ph mode. if ph = 33 \<and> mode = 2 then - 3 else 0))
          ex_parameters z),
       Pardiso (factorize_call
          (ex_externals x1 x2 (\<lambda>ph mode. if ph = 33 \<and> mode = 2 then - 3 else 0))
          ex_parameters z),
       Pardiso (forward_solve_call
          (ex_externals x1 x2 (\<lambda>ph mode. if ph = 33 \<and> mode = 2 then - 3 else 0))
          ex_parameters z),
       Println ''Solution successful!'',
       Pardiso (transpose_solve_call
          (ex_externals x1 x2 (\<lambda>ph mode. if ph = 33 \<and> mode = 2 then - 3 else 0))
          ex_parameters z),
       Printf ''ERROR during solution: '' (- 3)], Exit 33)"
  using assms by (simp add: wfes_unfold Let_def)

subsection \<open>The block size and the blocked assembly\<close>

lemma block_rows_all:
  "0 < bs \<Longrightarrow> start \<le> m \<Longrightarrow> block_rows row m bs start = map row [start..<m]"
proof (induction row m bs start rule: block_rows.induct)
  case (1 row m bs start)
  show ?case
  proof (cases "m \<le> start")
    case True
    with "1.prems" show ?thesis
      by (subst block_rows.simps) simp
  next
    case False
    show ?thesis
    proof (cases "start + bs \<le> m")
      case True
      with False "1.prems" have "block_rows row m bs (start + bs) = map row [start + bs..<m]"
        by (intro "1.IH") auto
      moreover have "[start..<m] = [start..<start + bs] @ [start + bs..<m]"
        using True by (metis le_add1 upt_add_eq_append le_Suc_ex)
      ultimately show ?thesis
        using False True "1.prems" by (subst block_rows.simps) (simp add: min_def)
    next
      case over: False
      then have "block_rows row m bs (start + bs) = []"
        by (subst block_rows.simps) simp
      with False over "1.prems" show ?thesis
        by (subst block_rows.simps) (simp add: min_def)
    qed
  qed
qed

lemma wf_matrix_csr_spec_blocks:
  "1 \<le> bs \<Longrightarrow>
   wf_matrix_csr_spec q w bs z =
     Some (csr_of_rows (map (matrix_row q w z) [0..<nat (matrix_size w)]))"
  by (simp add: wf_matrix_csr_spec_def block_rows_all)

lemma matrix_size_odd: "odd (matrix_size w)"
  by (simp add: matrix_size_def)

lemma block_size_div:
  assumes "matrix_size w < 2 ^ 52"
  shows "block_size w = (if 100 \<le> matrix_size w then matrix_size w div 10 else matrix_size w)"
  using assms matrix_size_odd [of w] by (simp add: block_size_def double_tenth)

lemma block_size_floor:
  assumes "matrix_size w < 2 ^ 52"
  shows "block_size w =
     (if 100 < matrix_size w then \<lfloor>real_of_int (matrix_size w) * (10 / 100)\<rfloor>
      else matrix_size w)"
proof -
  have "matrix_size w \<noteq> 100"
    using matrix_size_odd [of w] by auto
  moreover have "\<lfloor>real_of_int (matrix_size w) * (10 / 100)\<rfloor> = matrix_size w div 10"
    by (simp add: floor_divide_of_int_eq [of _ 10, simplified])
  ultimately show ?thesis
    by (simp add: block_size_div [OF assms])
qed

lemma block_size_pos:
  assumes "1 \<le> population_size w" "matrix_size w < 2 ^ 52"
  shows "1 \<le> block_size w"
proof -
  have "1 \<le> matrix_size w"
    using assms(1) by (simp add: matrix_size_def)
  then show ?thesis
    unfolding block_size_div [OF assms(2)] by (simp split: if_splits) linarith
qed

lemma block_size_large:
  "block_size (ex_parameters\<lparr>population_size := 3618827838455550\<rparr>) = 723765567691110"
  using double_tenth_large by (simp add: block_size_def matrix_size_def)

lemma wfes_matrix_only:
  assumes "wf_matrix_csr ext w bs z = wf_matrix_csr ext w (block_size w) z"
  shows "wfes (ext\<lparr>wf_matrix_csr := \<lambda>w' b z'. wf_matrix_csr ext w' bs z'\<rparr>) w r z = wfes ext w r z"
  using assms by (simp add: wfes_def extinction_rhs_def Let_def)

lemma ex_spec_externals_builder:
  "wf_matrix_csr_spec (wf_sampling_coefficient ex_spec_externals) w bs z = Some A \<Longrightarrow>
   wf_matrix_csr ex_spec_externals w bs z = A"
  by (simp add: ex_spec_externals_def)

lemma choose_4: "(4 choose 1) = (4::nat)" "(4 choose 2) = (6::nat)" "(4 choose 3) = (4::nat)"
  by (simp_all add: binomial_eq_0 eval_nat_numeral)

lemma ex_rows:
  "map (matrix_row (\<lambda>w i. real_of_int i / real_of_int (2 * population_size w))
          ex_parameters (1 / 10)) [0..<3] =
   [[(0, 37 / 64), (1, - 27 / 128)],
    [(0, - 1 / 4), (1, 5 / 8), (2, - 1 / 4)],
    [(1, - 27 / 128), (2, 37 / 64)]]"
  by (simp add: matrix_row_def generator_entry_def binomial_mass_def ex_parameters_def
      matrix_size_def upt_3 choose_4 Let_def power_divide eval_nat_numeral)

lemma ex_blocks_of_2:
  "block_rows row 3 2 0 = [row 0, row 1, row 2]"
proof -
  have third: "block_rows row 3 2 4 = []"
    using block_rows.simps [of row 3 2 4] by simp
  have second: "block_rows row 3 2 2 = [row 2]"
    using block_rows.simps [of row 3 2 2] by (simp add: third)
  have first: "block_rows row 3 2 0 = map row [0..<2] @ block_rows row 3 2 2"
    using block_rows.simps [of row 3 2 0] by (simp add: numeral_2_eq_2)
  have "[0..<2] = [0, 1::nat]"
    by (simp add: upt_conv_Cons)
  with first second show ?thesis
    by simp
qed

lemma ex_matrix:
  "wf_matrix_csr_spec (\<lambda>w i. real_of_int i / real_of_int (2 * population_size w))
     ex_parameters 2 (1 / 10) =
   Some \<lparr>data = [37 / 64, - 27 / 128, - 1 / 4, 5 / 8, - 1 / 4, - 27 / 128, 37 / 64],
     cols = [0, 1, 0, 1, 2, 1, 2], row_index = [0, 2, 5, 7]\<rparr>"
  unfolding wf_matrix_csr_spec_def
  using ex_rows by (simp add: ex_blocks_of_2 csr_of_rows_def upt_3)

section \<open>The claims\<close>

text \<open>
  C1, as amended. For every run in which both solves succeed and which \<open>wfes\<close> enters
  with \<open>time_extinction\<close> and \<open>time_fixation\<close> equal to zero: \<open>time_extinction\<close> is
  \<open>(\<Sum>i. B1[i] * N[i]) / B1[0]\<close> when \<open>B1[0] > 0\<close>, and when \<open>B1[0] \<le> 0\<close>
  \<open>probability_extinction\<close> is 0 and \<open>time_extinction\<close> is not-a-number; symmetrically
  for \<open>time_fixation\<close>, \<open>B2\<close> and \<open>probability_fixation\<close>.
\<close>

theorem conditional_times_from_zero:
  assumes run: "wfes ext w r z = (tr, Return r')"
    and zero: "time_extinction r = Fin 0" "time_fixation r = Fin 0"
  shows "(if 0 < B1 r' ! 0
          then time_extinction r' =
                 Fin ((\<Sum>i\<leftarrow>[0..<nat (matrix_size w)]. B1 r' ! i * N r' ! i) / B1 r' ! 0)
          else probability_extinction r' = Fin 0 \<and> time_extinction r' = NaN) \<and>
         (if 0 < B2 r' ! 0
          then time_fixation r' =
                 Fin ((\<Sum>i\<leftarrow>[0..<nat (matrix_size w)]. B2 r' ! i * N r' ! i) / B2 r' ! 0)
          else probability_fixation r' = Fin 0 \<and> time_fixation r' = NaN)"
proof -
  define m where "m = nat (matrix_size w)"
  have r': "r' = reduce m (forward_solution ext w z) (transpose_solution ext w z) r"
    using wfes_Return(2) [OF run] by (simp add: m_def)
  have te: "time_extinction r' =
     (if B1 r' ! 0 \<le> 0 then NaN
      else ddiv (dadd (time_extinction r) (\<Sum>i\<leftarrow>[0..<m]. B1 r' ! i * N r' ! i)) (B1 r' ! 0))"
    unfolding r' by (rule reduce_time_extinction)
  have pe: "probability_extinction r' = (if B1 r' ! 0 \<le> 0 then Fin 0 else Fin (B1 r' ! 0))"
    unfolding r' by (rule reduce_probability_extinction)
  have tf: "time_fixation r' =
     (if B2 r' ! 0 \<le> 0 then NaN
      else ddiv (dadd (time_fixation r) (\<Sum>i\<leftarrow>[0..<m]. B2 r' ! i * N r' ! i)) (B2 r' ! 0))"
    unfolding r' by (rule reduce_time_fixation)
  have pf: "probability_fixation r' = (if B2 r' ! 0 \<le> 0 then Fin 0 else Fin (B2 r' ! 0))"
    unfolding r' by (rule reduce_probability_fixation)
  have part1: "(if 0 < B1 r' ! 0
          then time_extinction r' = Fin ((\<Sum>i\<leftarrow>[0..<m]. B1 r' ! i * N r' ! i) / B1 r' ! 0)
          else probability_extinction r' = Fin 0 \<and> time_extinction r' = NaN)"
    by (simp add: te pe zero)
  have part2: "(if 0 < B2 r' ! 0
          then time_fixation r' = Fin ((\<Sum>i\<leftarrow>[0..<m]. B2 r' ! i * N r' ! i) / B2 r' ! 0)
          else probability_fixation r' = Fin 0 \<and> time_fixation r' = NaN)"
    by (simp add: tf pf zero)
  from part1 part2 show ?thesis unfolding m_def by (rule conjI)
qed

text \<open>The theorem at the run of the concrete inputs.\<close>

theorem conditional_times_from_zero_witness:
  "snd (wfes (ex_externals [1 / 2, - 1 / 4, 1 / 8] [1, - 1, 2] (\<lambda>ph mode. 0))
          ex_parameters ex_statistics 0) = Return ex_result \<and>
   time_extinction ex_statistics = Fin 0 \<and> time_fixation ex_statistics = Fin 0 \<and>
   0 < B1 ex_result ! 0 \<and>
   time_extinction ex_result =
     Fin ((\<Sum>i\<leftarrow>[0..<nat (matrix_size ex_parameters)]. B1 ex_result ! i * N ex_result ! i)
          / B1 ex_result ! 0) \<and>
   0 < B2 ex_result ! 0 \<and>
   time_fixation ex_result =
     Fin ((\<Sum>i\<leftarrow>[0..<nat (matrix_size ex_parameters)]. B2 ex_result ! i * N ex_result ! i)
          / B2 ex_result ! 0)"
proof -
  let ?run = "wfes (ex_externals [1 / 2, - 1 / 4, 1 / 8] [1, - 1, 2] (\<lambda>ph mode. 0))
      ex_parameters ex_statistics 0"
  have returned: "snd ?run = Return ex_result"
    by (simp add: ex_wfes_returns ex_statistics_def flip: ex_reduce)
  then have run: "?run = (fst ?run, Return ex_result)"
    by (simp add: prod_eq_iff)
  have zero: "time_extinction ex_statistics = Fin 0" "time_fixation ex_statistics = Fin 0"
    by (simp_all add: ex_statistics_def)
  have pos: "0 < B1 ex_result ! 0" "0 < B2 ex_result ! 0"
    by (simp_all add: ex_result_def)
  from conditional_times_from_zero [OF run zero] pos returned zero show ?thesis
    by simp
qed

text \<open>
  C1 as stated, for every run, fails: the loop adds to the summaries it finds. Entered
  with \<open>time_extinction = 1\<close> and \<open>time_fixation = 2\<close>, the same run returns \<open>7/2\<close> and
  \<open>17/2\<close>, where the two quotients are \<open>3/2\<close> and \<open>9/2\<close>.
\<close>

theorem conditional_times_counterexample:
  "snd (wfes (ex_externals [1 / 2, - 1 / 4, 1 / 8] [1, - 1, 2] (\<lambda>ph mode. 0)) ex_parameters
          (ex_statistics\<lparr>time_extinction := Fin 1, time_fixation := Fin 2,
             count_before_extinction := Fin 3\<rparr>) 0) = Return ex_result_offset \<and>
   0 < B1 ex_result_offset ! 0 \<and>
   time_extinction ex_result_offset \<noteq>
     Fin ((\<Sum>i\<leftarrow>[0..<nat (matrix_size ex_parameters)].
            B1 ex_result_offset ! i * N ex_result_offset ! i) / B1 ex_result_offset ! 0) \<and>
   0 < B2 ex_result_offset ! 0 \<and>
   time_fixation ex_result_offset \<noteq>
     Fin ((\<Sum>i\<leftarrow>[0..<nat (matrix_size ex_parameters)].
            B2 ex_result_offset ! i * N ex_result_offset ! i) / B2 ex_result_offset ! 0)"
proof -
  have "snd (wfes (ex_externals [1 / 2, - 1 / 4, 1 / 8] [1, - 1, 2] (\<lambda>ph mode. 0)) ex_parameters
          (ex_statistics\<lparr>time_extinction := Fin 1, time_fixation := Fin 2,
             count_before_extinction := Fin 3\<rparr>) 0) = Return ex_result_offset"
    by (simp add: ex_wfes_returns ex_statistics_def flip: ex_reduce_offset)
  then show ?thesis
    by (simp add: ex_result_offset_def upt_3)
qed




text \<open>
  C7, as amended. When \<open>wfes\<close> is entered with \<open>count_before_extinction\<close> equal to zero
  and \<open>B1[0] > 0\<close>, \<open>count_before_extinction\<close> equals
  \<open>(\<Sum>i. N[i] * B1[i] * (i + 1)) / B1[0]\<close>.
\<close>

theorem count_before_extinction_from_zero:
  assumes run: "wfes ext w r z = (tr, Return r')"
    and zero: "count_before_extinction r = Fin 0"
    and pos: "0 < B1 r' ! 0"
  shows "count_before_extinction r' =
           Fin ((\<Sum>i\<leftarrow>[0..<nat (matrix_size w)]. (N r' ! i * B1 r' ! i) * real (i + 1))
                / B1 r' ! 0)"
proof -
  define m where "m = nat (matrix_size w)"
  have r': "r' = reduce m (forward_solution ext w z) (transpose_solution ext w z) r"
    using wfes_Return(2) [OF run] by (simp add: m_def)
  have "count_before_extinction r' =
     ddiv (dadd (count_before_extinction r)
             (\<Sum>i\<leftarrow>[0..<m]. (N r' ! i * B1 r' ! i) * real (i + 1))) (B1 r' ! 0)"
    unfolding r' by (rule reduce_count)
  also have "\<dots> = Fin ((\<Sum>i\<leftarrow>[0..<m]. (N r' ! i * B1 r' ! i) * real (i + 1)) / B1 r' ! 0)"
    using pos by (simp only: zero ddiv_dadd_exact)
  finally show ?thesis by (simp only: m_def)
qed

text \<open>The theorem at the run of the concrete inputs.\<close>

theorem count_before_extinction_from_zero_witness:
  "snd (wfes (ex_externals [1 / 2, - 1 / 4, 1 / 8] [1, - 1, 2] (\<lambda>ph mode. 0))
          ex_parameters ex_statistics 0) = Return ex_result \<and>
   count_before_extinction ex_statistics = Fin 0 \<and> 0 < B1 ex_result ! 0 \<and>
   count_before_extinction ex_result =
     Fin ((\<Sum>i\<leftarrow>[0..<nat (matrix_size ex_parameters)].
            (N ex_result ! i * B1 ex_result ! i) * real (i + 1)) / B1 ex_result ! 0)"
proof -
  note run = run_of_snd [OF ex_returned]
  have zero: "count_before_extinction ex_statistics = Fin 0"
    by (simp add: ex_statistics_def)
  have pos: "0 < B1 ex_result ! 0"
    by (simp add: ex_result_def)
  from count_before_extinction_from_zero [OF run zero pos] ex_returned zero pos
  show ?thesis by blast
qed

text \<open>
  C7 as stated fails twice. The division of line 224 has no guard: with \<open>B1[0] = 0\<close>
  and a positive sum the run returns \<open>count_before_extinction = +\<infinity>\<close>, while
  \<open>time_extinction\<close> is set to not-a-number. And the sum starts from the value found on
  entry: entered with \<open>count_before_extinction = 3\<close>, the run returns \<open>17/2\<close>, where the
  quotient is \<open>5/2\<close>.
\<close>

theorem count_before_extinction_counterexample:
  "snd (wfes (ex_externals [- 1 / 10, 1 / 2, 1 / 4] [1, 1, 1] (\<lambda>ph mode. 0))
          ex_parameters ex_statistics 0) = Return ex_result_degenerate \<and>
   B1 ex_result_degenerate ! 0 \<le> 0 \<and>
   time_extinction ex_result_degenerate = NaN \<and>
   count_before_extinction ex_result_degenerate = PInf \<and>
   count_before_extinction ex_result_degenerate \<noteq> NaN \<and>
   snd (wfes (ex_externals [1 / 2, - 1 / 4, 1 / 8] [1, - 1, 2] (\<lambda>ph mode. 0)) ex_parameters
          (ex_statistics\<lparr>time_extinction := Fin 1, time_fixation := Fin 2,
             count_before_extinction := Fin 3\<rparr>) 0) = Return ex_result_offset \<and>
   0 < B1 ex_result_offset ! 0 \<and>
   count_before_extinction ex_result_offset \<noteq>
     Fin ((\<Sum>i\<leftarrow>[0..<nat (matrix_size ex_parameters)].
            (N ex_result_offset ! i * B1 ex_result_offset ! i) * real (i + 1))
          / B1 ex_result_offset ! 0)"
  using ex_returned_degenerate ex_returned_offset
  by (simp add: ex_result_degenerate_def ex_result_offset_def upt_3)



text \<open>
  C6, as amended. After the reducer has run, \<open>B1[0] \<ge> 0\<close> and \<open>B2[0] \<le> 1\<close> for every
  raw solved vector; \<open>B1[0] \<le> 1\<close> and \<open>B2[0] \<ge> 0\<close> hold exactly when the raw solved
  entry of state 0 is at most 1.
\<close>

theorem first_entries_bounds:
  assumes run: "wfes ext w r z = (tr, Return r')"
  shows "0 \<le> B1 r' ! 0 \<and> B2 r' ! 0 \<le> 1 \<and>
         (B1 r' ! 0 \<le> 1 \<longleftrightarrow> forward_solution ext w z ! 0 \<le> 1) \<and>
         (0 \<le> B2 r' ! 0 \<longleftrightarrow> forward_solution ext w z ! 0 \<le> 1)"
proof -
  define m where "m = nat (matrix_size w)"
  have r': "r' = reduce m (forward_solution ext w z) (transpose_solution ext w z) r"
    using wfes_Return(2) [OF run] by (simp add: m_def)
  have len: "m \<le> length (B1 r)" "m \<le> length (B2 r)" and m: "0 < m"
    using wfes_Return(3-5) [OF run] by (simp_all add: m_def)
  have b1: "B1 r' ! 0 = max 0 (forward_solution ext w z ! 0)"
    unfolding r' using len m by (simp add: reduce_B1 m_def)
  have b2: "B2 r' ! 0 = 1 - max 0 (forward_solution ext w z ! 0)"
    unfolding r' using len m by (simp add: reduce_B2 m_def)
  from b1 b2 show ?thesis by auto
qed

text \<open>The theorem at the run of the concrete inputs, whose first solved entry is \<open>1/2\<close>.\<close>

theorem first_entries_bounds_witness:
  "snd (wfes (ex_externals [1 / 2, - 1 / 4, 1 / 8] [1, - 1, 2] (\<lambda>ph mode. 0))
          ex_parameters ex_statistics 0) = Return ex_result \<and>
   forward_solution (ex_externals [1 / 2, - 1 / 4, 1 / 8] [1, - 1, 2] (\<lambda>ph mode. 0))
     ex_parameters 0 ! 0 \<le> 1 \<and>
   0 \<le> B1 ex_result ! 0 \<and> B1 ex_result ! 0 \<le> 1 \<and>
   0 \<le> B2 ex_result ! 0 \<and> B2 ex_result ! 0 \<le> 1"
proof -
  note run = run_of_snd [OF ex_returned]
  have raw: "forward_solution (ex_externals [1 / 2, - 1 / 4, 1 / 8] [1, - 1, 2] (\<lambda>ph mode. 0))
     ex_parameters 0 ! 0 \<le> 1"
    by simp
  from first_entries_bounds [OF run] raw ex_returned show ?thesis
    by blast
qed

text \<open>
  C6 as stated fails: nothing clamps from above. A first solved entry of \<open>3/2\<close> leaves
  \<open>B1[0] = 3/2\<close> and \<open>B2[0] = -1/2\<close>.
\<close>

theorem first_entries_bounds_counterexample:
  "snd (wfes (ex_externals [3 / 2, 1 / 4, 1 / 8] [1, - 1, 2] (\<lambda>ph mode. 0))
          ex_parameters ex_statistics 0) = Return ex_result_noise \<and>
   1 < B1 ex_result_noise ! 0 \<and> B2 ex_result_noise ! 0 < 0"
  using ex_returned_noise by (simp add: ex_result_noise_def)

text \<open>
  C2, as amended. In every run in which no solver phase reports an error, Analyze and
  Factorize are each invoked exactly once on the assembled matrix, and Solve is invoked
  exactly twice on the handle of that one factorization: first with \<open>iparm[11] = 0\<close>
  (forward) and the extinction right-hand side, then with \<open>iparm[11] = 2\<close> (transpose)
  and the unit vector of state 0; Release follows. A run in which a phase reports an
  error stops at that call.

  In the theorem: the solver calls of every run are an initial part of Analyze,
  Factorize, Solve, Solve, Release; a call that reports a nonzero status is the last
  call of its run; the runs that return are the runs of defined behaviour in which
  none of Analyze, Factorize and the two Solves reports an error; and a run that
  returns has made the five calls as described.
\<close>

theorem solver_protocol:
  assumes run: "wfes ext w r z = (tr, out)"
  shows "(\<exists>n. map p_phase (pardiso_calls tr) = take n [11, 22, 33, 33, - 1]) \<and>
         (\<forall>k<length (pardiso_calls tr).
            r_error (pardiso_64 ext (pardiso_calls tr ! k)) \<noteq> 0 \<longrightarrow>
              Suc k = length (pardiso_calls tr)) \<and>
         ((\<exists>r'. out = Return r') \<longleftrightarrow>
            out \<noteq> Undefined \<and>
            (\<forall>c \<in> set (pardiso_calls tr).
               p_phase c \<noteq> - 1 \<longrightarrow> r_error (pardiso_64 ext c) = 0)) \<and>
         (\<forall>r'. out = Return r' \<longrightarrow>
            map p_phase (pardiso_calls tr) = [11, 22, 33, 33, - 1] \<and>
            (\<forall>c \<in> set (pardiso_calls tr).
               p_n c = matrix_size w \<and>
               p_ia c = row_index (wf_matrix_csr ext w (block_size w) z) \<and>
               p_ja c = cols (wf_matrix_csr ext w (block_size w) z) \<and>
               (p_phase c \<noteq> - 1 \<longrightarrow>
                  p_a c = Some (data (wf_matrix_csr ext w (block_size w) z)))) \<and>
            p_pt (pardiso_calls tr ! 0) = (\<lambda>i. 0) \<and>
            (\<forall>k<4. p_pt (pardiso_calls tr ! Suc k) =
                      r_pt (pardiso_64 ext (pardiso_calls tr ! k))) \<and>
            p_iparm (pardiso_calls tr ! 2) 11 = 0 \<and>
            p_b (pardiso_calls tr ! 2) = Some (extinction_rhs ext w) \<and>
            p_iparm (pardiso_calls tr ! 3) 11 = 2 \<and>
            p_b (pardiso_calls tr ! 3) =
              Some (map (\<lambda>i. if i = 0 then 1 else 0) [0..<nat (matrix_size w)]))"
proof -
  from wfes_calls [OF run] obtain n where
    "pardiso_calls tr =
       take n [analyze_call ext w z, factorize_call ext w z, forward_solve_call ext w z,
               transpose_solve_call ext w z, release_call ext w z]"
    by blast
  then have "map p_phase (pardiso_calls tr) = take n [11, 22, 33, 33, - 1]"
    by (simp add: take_map [symmetric])
  then have prefix: "\<exists>n. map p_phase (pardiso_calls tr) = take n [11, 22, 33, 33, - 1]" ..
  have stops: "\<forall>k<length (pardiso_calls tr).
      r_error (pardiso_64 ext (pardiso_calls tr ! k)) \<noteq> 0 \<longrightarrow>
        Suc k = length (pardiso_calls tr)"
    using wfes_error(1) [OF run] by blast
  note returns = wfes_Return_iff [OF run]
  have protocol: "map p_phase (pardiso_calls tr) = [11, 22, 33, 33, - 1] \<and>
            (\<forall>c \<in> set (pardiso_calls tr).
               p_n c = matrix_size w \<and>
               p_ia c = row_index (wf_matrix_csr ext w (block_size w) z) \<and>
               p_ja c = cols (wf_matrix_csr ext w (block_size w) z) \<and>
               (p_phase c \<noteq> - 1 \<longrightarrow>
                  p_a c = Some (data (wf_matrix_csr ext w (block_size w) z)))) \<and>
            p_pt (pardiso_calls tr ! 0) = (\<lambda>i. 0) \<and>
            (\<forall>k<4. p_pt (pardiso_calls tr ! Suc k) =
                      r_pt (pardiso_64 ext (pardiso_calls tr ! k))) \<and>
            p_iparm (pardiso_calls tr ! 2) 11 = 0 \<and>
            p_b (pardiso_calls tr ! 2) = Some (extinction_rhs ext w) \<and>
            p_iparm (pardiso_calls tr ! 3) 11 = 2 \<and>
            p_b (pardiso_calls tr ! 3) =
              Some (map (\<lambda>i. if i = 0 then 1 else 0) [0..<nat (matrix_size w)])"
    if "out = Return r'" for r'
  proof -
    from run that have ret: "wfes ext w r z = (tr, Return r')" by simp
    have calls: "pardiso_calls tr =
        [analyze_call ext w z, factorize_call ext w z, forward_solve_call ext w z,
         transpose_solve_call ext w z, release_call ext w z]"
      by (simp add: wfes_Return(1) [OF ret])
    have chain: "p_pt (pardiso_calls tr ! Suc k) = r_pt (pardiso_64 ext (pardiso_calls tr ! k))"
      if "k < 4" for k
    proof -
      from that consider "k = 0" | "k = 1" | "k = 2" | "k = 3" by linarith
      then show ?thesis by cases (simp_all add: calls)
    qed
    show ?thesis
      using chain by (simp add: calls)
  qed
  then have protocol': "\<forall>r'. out = Return r' \<longrightarrow>
            map p_phase (pardiso_calls tr) = [11, 22, 33, 33, - 1] \<and>
            (\<forall>c \<in> set (pardiso_calls tr).
               p_n c = matrix_size w \<and>
               p_ia c = row_index (wf_matrix_csr ext w (block_size w) z) \<and>
               p_ja c = cols (wf_matrix_csr ext w (block_size w) z) \<and>
               (p_phase c \<noteq> - 1 \<longrightarrow>
                  p_a c = Some (data (wf_matrix_csr ext w (block_size w) z)))) \<and>
            p_pt (pardiso_calls tr ! 0) = (\<lambda>i. 0) \<and>
            (\<forall>k<4. p_pt (pardiso_calls tr ! Suc k) =
                      r_pt (pardiso_64 ext (pardiso_calls tr ! k))) \<and>
            p_iparm (pardiso_calls tr ! 2) 11 = 0 \<and>
            p_b (pardiso_calls tr ! 2) = Some (extinction_rhs ext w) \<and>
            p_iparm (pardiso_calls tr ! 3) 11 = 2 \<and>
            p_b (pardiso_calls tr ! 3) =
              Some (map (\<lambda>i. if i = 0 then 1 else 0) [0..<nat (matrix_size w)])"
    by (intro allI impI)
  from prefix stops returns protocol' show ?thesis
    by (intro conjI)
qed

text \<open>
  The theorem at the run of the concrete inputs (the phases, the two modes and the two
  right-hand sides) and at a run whose Factorize call reports the status \<open>-2\<close>: that
  call, the second, is the last.
\<close>

theorem solver_protocol_witness:
  "snd (wfes (ex_externals [1 / 2, - 1 / 4, 1 / 8] [1, - 1, 2] (\<lambda>ph mode. 0))
          ex_parameters ex_statistics 0) = Return ex_result \<and>
   map p_phase (pardiso_calls (fst
     (wfes (ex_externals [1 / 2, - 1 / 4, 1 / 8] [1, - 1, 2] (\<lambda>ph mode. 0))
          ex_parameters ex_statistics 0))) = [11, 22, 33, 33, - 1] \<and>
   p_iparm (pardiso_calls (fst
     (wfes (ex_externals [1 / 2, - 1 / 4, 1 / 8] [1, - 1, 2] (\<lambda>ph mode. 0))
          ex_parameters ex_statistics 0)) ! 2) 11 = 0 \<and>
   p_b (pardiso_calls (fst
     (wfes (ex_externals [1 / 2, - 1 / 4, 1 / 8] [1, - 1, 2] (\<lambda>ph mode. 0))
          ex_parameters ex_statistics 0)) ! 2) = Some [81 / 256, 1 / 16, 1 / 256] \<and>
   p_iparm (pardiso_calls (fst
     (wfes (ex_externals [1 / 2, - 1 / 4, 1 / 8] [1, - 1, 2] (\<lambda>ph mode. 0))
          ex_parameters ex_statistics 0)) ! 3) 11 = 2 \<and>
   p_b (pardiso_calls (fst
     (wfes (ex_externals [1 / 2, - 1 / 4, 1 / 8] [1, - 1, 2] (\<lambda>ph mode. 0))
          ex_parameters ex_statistics 0)) ! 3) = Some [1, 0, 0] \<and>
   1 < length (pardiso_calls (fst
     (wfes (ex_externals [1 / 2, - 1 / 4, 1 / 8] [1, - 1, 2]
               (\<lambda>ph mode. if ph = 22 then - 2 else 0))
          ex_parameters ex_statistics 0))) \<and>
   r_error (pardiso_64 (ex_externals [1 / 2, - 1 / 4, 1 / 8] [1, - 1, 2]
               (\<lambda>ph mode. if ph = 22 then - 2 else 0))
     (pardiso_calls (fst
     (wfes (ex_externals [1 / 2, - 1 / 4, 1 / 8] [1, - 1, 2]
               (\<lambda>ph mode. if ph = 22 then - 2 else 0))
          ex_parameters ex_statistics 0)) ! 1)) = - 2 \<and>
   length (pardiso_calls (fst
     (wfes (ex_externals [1 / 2, - 1 / 4, 1 / 8] [1, - 1, 2]
               (\<lambda>ph mode. if ph = 22 then - 2 else 0))
          ex_parameters ex_statistics 0))) = 2 \<and>
   snd (wfes (ex_externals [1 / 2, - 1 / 4, 1 / 8] [1, - 1, 2]
               (\<lambda>ph mode. if ph = 22 then - 2 else 0))
          ex_parameters ex_statistics 0) \<noteq> Undefined \<and>
   (\<nexists>r'. snd (wfes (ex_externals [1 / 2, - 1 / 4, 1 / 8] [1, - 1, 2]
               (\<lambda>ph mode. if ph = 22 then - 2 else 0))
          ex_parameters ex_statistics 0) = Return r')"
proof -
  let ?ext = "ex_externals [1 / 2, - 1 / 4, 1 / 8] [1, - 1, 2]
               (\<lambda>ph mode. if ph = 22 then - 2 else 0)"
  let ?run = "wfes ?ext ex_parameters ex_statistics 0"
  note run = run_of_snd [OF ex_returned]
  from solver_protocol [OF run] ex_returned have first:
    "map p_phase (pardiso_calls (fst
       (wfes (ex_externals [1 / 2, - 1 / 4, 1 / 8] [1, - 1, 2] (\<lambda>ph mode. 0))
          ex_parameters ex_statistics 0))) = [11, 22, 33, 33, - 1] \<and>
     p_iparm (pardiso_calls (fst
       (wfes (ex_externals [1 / 2, - 1 / 4, 1 / 8] [1, - 1, 2] (\<lambda>ph mode. 0))
          ex_parameters ex_statistics 0)) ! 2) 11 = 0 \<and>
     p_b (pardiso_calls (fst
       (wfes (ex_externals [1 / 2, - 1 / 4, 1 / 8] [1, - 1, 2] (\<lambda>ph mode. 0))
          ex_parameters ex_statistics 0)) ! 2) = Some [81 / 256, 1 / 16, 1 / 256] \<and>
     p_iparm (pardiso_calls (fst
       (wfes (ex_externals [1 / 2, - 1 / 4, 1 / 8] [1, - 1, 2] (\<lambda>ph mode. 0))
          ex_parameters ex_statistics 0)) ! 3) 11 = 2 \<and>
     p_b (pardiso_calls (fst
       (wfes (ex_externals [1 / 2, - 1 / 4, 1 / 8] [1, - 1, 2] (\<lambda>ph mode. 0))
          ex_parameters ex_statistics 0)) ! 3) = Some [1, 0, 0]"
    by (simp add: upt_3)
  have failing: "?run = (fst ?run, snd ?run)"
    by simp
  have reached: "1 < length (pardiso_calls (fst ?run))"
    by (simp add: ex_wfes_factorize_fails)
  have status: "r_error (pardiso_64 ?ext (pardiso_calls (fst ?run) ! 1)) = - 2"
    by (simp add: ex_wfes_factorize_fails)
  have defined: "snd ?run \<noteq> Undefined"
    by (simp add: ex_wfes_factorize_fails)
  have second: "pardiso_calls (fst ?run) ! 1 \<in> set (pardiso_calls (fst ?run))"
    using reached by (rule nth_mem)
  note facts = solver_protocol [OF failing]
  from facts [THEN conjunct2, THEN conjunct1, rule_format, OF reached] status
  have last: "length (pardiso_calls (fst ?run)) = 2"
    by simp
  from facts have "(\<exists>r'. snd ?run = Return r') \<longleftrightarrow>
      snd ?run \<noteq> Undefined \<and>
      (\<forall>c \<in> set (pardiso_calls (fst ?run)).
         p_phase c \<noteq> - 1 \<longrightarrow> r_error (pardiso_64 ?ext c) = 0)"
    by (elim conjE)
  moreover have "p_phase (pardiso_calls (fst ?run) ! 1) \<noteq> - 1"
    by (simp add: ex_wfes_factorize_fails)
  ultimately have stopped: "\<nexists>r'. snd ?run = Return r'"
    using second status by force
  from first have "map p_phase (pardiso_calls (fst
       (wfes (ex_externals [1 / 2, - 1 / 4, 1 / 8] [1, - 1, 2] (\<lambda>ph mode. 0))
          ex_parameters ex_statistics 0))) = [11, 22, 33, 33, - 1]"
    and "p_iparm (pardiso_calls (fst
       (wfes (ex_externals [1 / 2, - 1 / 4, 1 / 8] [1, - 1, 2] (\<lambda>ph mode. 0))
          ex_parameters ex_statistics 0)) ! 2) 11 = 0"
    and "p_b (pardiso_calls (fst
       (wfes (ex_externals [1 / 2, - 1 / 4, 1 / 8] [1, - 1, 2] (\<lambda>ph mode. 0))
          ex_parameters ex_statistics 0)) ! 2) = Some [81 / 256, 1 / 16, 1 / 256]"
    and "p_iparm (pardiso_calls (fst
       (wfes (ex_externals [1 / 2, - 1 / 4, 1 / 8] [1, - 1, 2] (\<lambda>ph mode. 0))
          ex_parameters ex_statistics 0)) ! 3) 11 = 2"
    and "p_b (pardiso_calls (fst
       (wfes (ex_externals [1 / 2, - 1 / 4, 1 / 8] [1, - 1, 2] (\<lambda>ph mode. 0))
          ex_parameters ex_statistics 0)) ! 3) = Some [1, 0, 0]"
    by simp_all
  with ex_returned reached status last defined stopped show ?thesis
    by (intro conjI)
qed

text \<open>
  C2 as stated, for every run, fails: in a run whose Analyze call reports an error the
  only solver call is that one; Factorize and Solve are not invoked.
\<close>

theorem solver_protocol_counterexample:
  "snd (wfes (ex_externals [1 / 2, - 1 / 4, 1 / 8] [1, - 1, 2]
               (\<lambda>ph mode. if ph = 11 then - 1 else 0)) ex_parameters ex_statistics 0) = Exit 11 \<and>
   map p_phase (pardiso_calls (fst
     (wfes (ex_externals [1 / 2, - 1 / 4, 1 / 8] [1, - 1, 2]
        (\<lambda>ph mode. if ph = 11 then - 1 else 0)) ex_parameters ex_statistics 0))) = [11]"
  by (simp add: ex_wfes_analyze_fails)



text \<open>
  C4, as amended. On the success path Release (phase -1) is invoked exactly once, as
  the last thing the run does before it returns. On every fatal-abort path, taken when
  Analyze, Factorize or either Solve returns a nonzero status, the run ends in
  \<open>exit (phase)\<close> without invoking Release.

  In the theorem: a run that returns has made one Release call, its last event; a
  call other than Release that reports a nonzero status makes the run end in \<open>exit\<close>
  with the phase of that call, no Release call made; and no run that ends in \<open>exit\<close>
  has made a Release call.
\<close>

theorem release_only_on_return:
  assumes run: "wfes ext w r z = (tr, out)"
  shows "(\<forall>r'. out = Return r' \<longrightarrow>
            length (filter (\<lambda>c. p_phase c = - 1) (pardiso_calls tr)) = 1 \<and>
            p_phase (last (pardiso_calls tr)) = - 1 \<and>
            last tr = Pardiso (last (pardiso_calls tr))) \<and>
         (\<forall>k<length (pardiso_calls tr).
            p_phase (pardiso_calls tr ! k) \<noteq> - 1 \<and>
            r_error (pardiso_64 ext (pardiso_calls tr ! k)) \<noteq> 0 \<longrightarrow>
              out = Exit (p_phase (pardiso_calls tr ! k)) \<and>
              filter (\<lambda>c. p_phase c = - 1) (pardiso_calls tr) = []) \<and>
         (\<forall>j. out = Exit j \<longrightarrow> filter (\<lambda>c. p_phase c = - 1) (pardiso_calls tr) = [])"
proof -
  have success: "length (filter (\<lambda>c. p_phase c = - 1) (pardiso_calls tr)) = 1 \<and>
            p_phase (last (pardiso_calls tr)) = - 1 \<and>
            last tr = Pardiso (last (pardiso_calls tr))" if "out = Return r'" for r'
  proof -
    from run that have "wfes ext w r z = (tr, Return r')" by simp
    note tr = wfes_Return(1) [OF this]
    show ?thesis by (simp add: tr)
  qed
  have abort: "out = Exit (p_phase (pardiso_calls tr ! k)) \<and>
      filter (\<lambda>c. p_phase c = - 1) (pardiso_calls tr) = []"
    if "k < length (pardiso_calls tr)"
      and "p_phase (pardiso_calls tr ! k) \<noteq> - 1 \<and>
           r_error (pardiso_64 ext (pardiso_calls tr ! k)) \<noteq> 0" for k
    using wfes_error(2,3) [OF run that(1)] that(2) by simp
  have exits: "filter (\<lambda>c. p_phase c = - 1) (pardiso_calls tr) = []" if "out = Exit j" for j
  proof -
    from run that have "wfes ext w r z = (tr, Exit j)" by simp
    from wfes_Exit [OF this] show ?thesis
      by (elim disjE conjE) simp_all
  qed
  from success abort exits show ?thesis
    by blast
qed

text \<open>
  The theorem at a run that returns, at a run whose Analyze call reports the status
  \<open>-1\<close> and at a run whose second solve reports the status \<open>-3\<close>.
\<close>

theorem release_only_on_return_witness:
  "snd (wfes (ex_externals [1 / 2, - 1 / 4, 1 / 8] [1, - 1, 2] (\<lambda>ph mode. 0))
          ex_parameters ex_statistics 0) = Return ex_result \<and>
   length (filter (\<lambda>c. p_phase c = - 1) (pardiso_calls (fst
     (wfes (ex_externals [1 / 2, - 1 / 4, 1 / 8] [1, - 1, 2] (\<lambda>ph mode. 0))
          ex_parameters ex_statistics 0)))) = 1 \<and>
   0 < length (pardiso_calls (fst
     (wfes (ex_externals [1 / 2, - 1 / 4, 1 / 8] [1, - 1, 2]
               (\<lambda>ph mode. if ph = 11 then - 1 else 0))
          ex_parameters ex_statistics 0))) \<and>
   p_phase (pardiso_calls (fst
     (wfes (ex_externals [1 / 2, - 1 / 4, 1 / 8] [1, - 1, 2]
               (\<lambda>ph mode. if ph = 11 then - 1 else 0))
          ex_parameters ex_statistics 0)) ! 0) = 11 \<and>
   r_error (pardiso_64 (ex_externals [1 / 2, - 1 / 4, 1 / 8] [1, - 1, 2]
               (\<lambda>ph mode. if ph = 11 then - 1 else 0))
     (pardiso_calls (fst
     (wfes (ex_externals [1 / 2, - 1 / 4, 1 / 8] [1, - 1, 2]
               (\<lambda>ph mode. if ph = 11 then - 1 else 0))
          ex_parameters ex_statistics 0)) ! 0)) = - 1 \<and>
   snd (wfes (ex_externals [1 / 2, - 1 / 4, 1 / 8] [1, - 1, 2]
               (\<lambda>ph mode. if ph = 11 then - 1 else 0))
          ex_parameters ex_statistics 0) = Exit 11 \<and>
   filter (\<lambda>c. p_phase c = - 1) (pardiso_calls (fst
     (wfes (ex_externals [1 / 2, - 1 / 4, 1 / 8] [1, - 1, 2]
               (\<lambda>ph mode. if ph = 11 then - 1 else 0))
          ex_parameters ex_statistics 0))) = [] \<and>
   3 < length (pardiso_calls (fst
     (wfes (ex_externals [1 / 2, - 1 / 4, 1 / 8] [1, - 1, 2]
               (\<lambda>ph mode. if ph = 33 \<and> mode = 2 then - 3 else 0))
          ex_parameters ex_statistics 0))) \<and>
   p_phase (pardiso_calls (fst
     (wfes (ex_externals [1 / 2, - 1 / 4, 1 / 8] [1, - 1, 2]
               (\<lambda>ph mode. if ph = 33 \<and> mode = 2 then - 3 else 0))
          ex_parameters ex_statistics 0)) ! 3) = 33 \<and>
   r_error (pardiso_64 (ex_externals [1 / 2, - 1 / 4, 1 / 8] [1, - 1, 2]
               (\<lambda>ph mode. if ph = 33 \<and> mode = 2 then - 3 else 0))
     (pardiso_calls (fst
     (wfes (ex_externals [1 / 2, - 1 / 4, 1 / 8] [1, - 1, 2]
               (\<lambda>ph mode. if ph = 33 \<and> mode = 2 then - 3 else 0))
          ex_parameters ex_statistics 0)) ! 3)) = - 3 \<and>
   snd (wfes (ex_externals [1 / 2, - 1 / 4, 1 / 8] [1, - 1, 2]
               (\<lambda>ph mode. if ph = 33 \<and> mode = 2 then - 3 else 0))
          ex_parameters ex_statistics 0) = Exit 33 \<and>
   filter (\<lambda>c. p_phase c = - 1) (pardiso_calls (fst
     (wfes (ex_externals [1 / 2, - 1 / 4, 1 / 8] [1, - 1, 2]
               (\<lambda>ph mode. if ph = 33 \<and> mode = 2 then - 3 else 0))
          ex_parameters ex_statistics 0))) = []"
proof -
  let ?ext1 = "ex_externals [1 / 2, - 1 / 4, 1 / 8] [1, - 1, 2]
               (\<lambda>ph mode. if ph = 11 then - 1 else 0)"
  let ?run1 = "wfes ?ext1 ex_parameters ex_statistics 0"
  let ?ext2 = "ex_externals [1 / 2, - 1 / 4, 1 / 8] [1, - 1, 2]
               (\<lambda>ph mode. if ph = 33 \<and> mode = 2 then - 3 else 0)"
  let ?run2 = "wfes ?ext2 ex_parameters ex_statistics 0"
  note run = run_of_snd [OF ex_returned]
  from release_only_on_return [OF run] ex_returned
  have once: "length (filter (\<lambda>c. p_phase c = - 1) (pardiso_calls (fst
     (wfes (ex_externals [1 / 2, - 1 / 4, 1 / 8] [1, - 1, 2] (\<lambda>ph mode. 0))
          ex_parameters ex_statistics 0)))) = 1"
    by blast
  have run1: "?run1 = (fst ?run1, snd ?run1)"
    by simp
  have reached1: "0 < length (pardiso_calls (fst ?run1))"
    by (simp add: ex_wfes_analyze_fails)
  have phase1: "p_phase (pardiso_calls (fst ?run1) ! 0) = 11"
    by (simp add: ex_wfes_analyze_fails)
  have status1: "r_error (pardiso_64 ?ext1 (pardiso_calls (fst ?run1) ! 0)) = - 1"
    by (simp add: ex_wfes_analyze_fails)
  from release_only_on_return [OF run1, THEN conjunct2, THEN conjunct1, rule_format,
      OF reached1]
  have abort1: "snd ?run1 = Exit 11 \<and>
      filter (\<lambda>c. p_phase c = - 1) (pardiso_calls (fst ?run1)) = []"
    unfolding phase1 status1 by simp
  have run2: "?run2 = (fst ?run2, snd ?run2)"
    by simp
  have reached2: "3 < length (pardiso_calls (fst ?run2))"
    by (simp add: ex_wfes_transpose_fails ex_statistics_def)
  have phase2: "p_phase (pardiso_calls (fst ?run2) ! 3) = 33"
    by (simp add: ex_wfes_transpose_fails ex_statistics_def)
  have status2: "r_error (pardiso_64 ?ext2 (pardiso_calls (fst ?run2) ! 3)) = - 3"
    by (simp add: ex_wfes_transpose_fails ex_statistics_def)
  from release_only_on_return [OF run2, THEN conjunct2, THEN conjunct1, rule_format,
      OF reached2]
  have abort2: "snd ?run2 = Exit 33 \<and>
      filter (\<lambda>c. p_phase c = - 1) (pardiso_calls (fst ?run2)) = []"
    unfolding phase2 status2 by simp
  from abort1 have exit1: "snd ?run1 = Exit 11"
    and none1: "filter (\<lambda>c. p_phase c = - 1) (pardiso_calls (fst ?run1)) = []"
    by simp_all
  from abort2 have exit2: "snd ?run2 = Exit 33"
    and none2: "filter (\<lambda>c. p_phase c = - 1) (pardiso_calls (fst ?run2)) = []"
    by simp_all
  from ex_returned once reached1 phase1 status1 exit1 none1 reached2 phase2 status2
    exit2 none2
  show ?thesis
    by (intro conjI)
qed

text \<open>
  C4 as stated fails on the fatal-abort paths: the run whose first solve reports an
  error ends in \<open>exit (33)\<close> and has made no Release call.
\<close>

theorem release_only_on_return_counterexample:
  "snd (wfes (ex_externals [1 / 2, - 1 / 4, 1 / 8] [1, - 1, 2]
               (\<lambda>ph mode. if ph = 33 \<and> mode = 0 then - 3 else 0))
          ex_parameters ex_statistics 0) = Exit 33 \<and>
   length (filter (\<lambda>c. p_phase c = - 1) (pardiso_calls (fst
     (wfes (ex_externals [1 / 2, - 1 / 4, 1 / 8] [1, - 1, 2]
               (\<lambda>ph mode. if ph = 33 \<and> mode = 0 then - 3 else 0))
        ex_parameters ex_statistics 0)))) = 0"
  by (simp add: ex_wfes_forward_fails)

text \<open>
  C9. On a fatal solver error the exit status is the phase code of the failing call
  (11 for Analyze, 22 for Factorize, 33 for Solve), whatever nonzero status the solver
  returned; the last line printed names the phase and gives that status. A failure of
  the first solve (three calls made) and a failure of the second (four calls made)
  both end with exit status 33 and the text \<open>ERROR during solution: \<close> before the
  status.

  In the theorem: a call other than Release that reports a nonzero status is the last
  call of its run, the run ends in \<open>exit\<close> with the phase of that call, which is 11 at
  the first call, 22 at the second and 33 at the third and at the fourth, and the last
  line printed is the text of the phase with the status; and every run that ends in
  \<open>exit\<close> is such a run.
\<close>

theorem fatal_exit_status:
  assumes run: "wfes ext w r z = (tr, out)"
  shows "(\<forall>k<length (pardiso_calls tr).
            p_phase (pardiso_calls tr ! k) \<noteq> - 1 \<and>
            r_error (pardiso_64 ext (pardiso_calls tr ! k)) \<noteq> 0 \<longrightarrow>
              out = Exit (p_phase (pardiso_calls tr ! k)) \<and>
              Suc k = length (pardiso_calls tr) \<and>
              (p_phase (pardiso_calls tr ! k) = 11 \<and> k = 0 \<and>
                 last tr = Printf ''ERROR during symbolic factorization: ''
                             (r_error (pardiso_64 ext (pardiso_calls tr ! k))) \<or>
               p_phase (pardiso_calls tr ! k) = 22 \<and> k = 1 \<and>
                 last tr = Printf ''ERROR during numeric factorization: ''
                             (r_error (pardiso_64 ext (pardiso_calls tr ! k))) \<or>
               p_phase (pardiso_calls tr ! k) = 33 \<and> (k = 2 \<or> k = 3) \<and>
                 last tr = Printf ''ERROR during solution: ''
                             (r_error (pardiso_64 ext (pardiso_calls tr ! k))))) \<and>
         (\<forall>j. out = Exit j \<longrightarrow>
            pardiso_calls tr \<noteq> [] \<and>
            r_error (pardiso_64 ext (last (pardiso_calls tr))) \<noteq> 0 \<and>
            j = p_phase (last (pardiso_calls tr)) \<and>
            (j = 11 \<and> length (pardiso_calls tr) = 1 \<and>
               last tr = Printf ''ERROR during symbolic factorization: ''
                           (r_error (pardiso_64 ext (last (pardiso_calls tr)))) \<or>
             j = 22 \<and> length (pardiso_calls tr) = 2 \<and>
               last tr = Printf ''ERROR during numeric factorization: ''
                           (r_error (pardiso_64 ext (last (pardiso_calls tr)))) \<or>
             j = 33 \<and> (length (pardiso_calls tr) = 3 \<or> length (pardiso_calls tr) = 4) \<and>
               last tr = Printf ''ERROR during solution: ''
                           (r_error (pardiso_64 ext (last (pardiso_calls tr))))))"
proof -
  have forward: "out = Exit (p_phase (pardiso_calls tr ! k)) \<and>
              Suc k = length (pardiso_calls tr) \<and>
              (p_phase (pardiso_calls tr ! k) = 11 \<and> k = 0 \<and>
                 last tr = Printf ''ERROR during symbolic factorization: ''
                             (r_error (pardiso_64 ext (pardiso_calls tr ! k))) \<or>
               p_phase (pardiso_calls tr ! k) = 22 \<and> k = 1 \<and>
                 last tr = Printf ''ERROR during numeric factorization: ''
                             (r_error (pardiso_64 ext (pardiso_calls tr ! k))) \<or>
               p_phase (pardiso_calls tr ! k) = 33 \<and> (k = 2 \<or> k = 3) \<and>
                 last tr = Printf ''ERROR during solution: ''
                             (r_error (pardiso_64 ext (pardiso_calls tr ! k))))"
    if k: "k < length (pardiso_calls tr)"
      and err: "p_phase (pardiso_calls tr ! k) \<noteq> - 1 \<and>
           r_error (pardiso_64 ext (pardiso_calls tr ! k)) \<noteq> 0" for k
  proof -
    from err have ph: "p_phase (pardiso_calls tr ! k) \<noteq> - 1"
      and st: "r_error (pardiso_64 ext (pardiso_calls tr ! k)) \<noteq> 0"
      by simp_all
    from wfes_error(2) [OF run k st ph] wfes_error(1) [OF run k st]
      wfes_error(4) [OF run k st ph]
    show ?thesis by (intro conjI)
  qed
  have backward: "pardiso_calls tr \<noteq> [] \<and>
            r_error (pardiso_64 ext (last (pardiso_calls tr))) \<noteq> 0 \<and>
            j = p_phase (last (pardiso_calls tr)) \<and>
            (j = 11 \<and> length (pardiso_calls tr) = 1 \<and>
               last tr = Printf ''ERROR during symbolic factorization: ''
                           (r_error (pardiso_64 ext (last (pardiso_calls tr)))) \<or>
             j = 22 \<and> length (pardiso_calls tr) = 2 \<and>
               last tr = Printf ''ERROR during numeric factorization: ''
                           (r_error (pardiso_64 ext (last (pardiso_calls tr)))) \<or>
             j = 33 \<and> (length (pardiso_calls tr) = 3 \<or> length (pardiso_calls tr) = 4) \<and>
               last tr = Printf ''ERROR during solution: ''
                           (r_error (pardiso_64 ext (last (pardiso_calls tr)))))"
    if "out = Exit j" for j
  proof -
    from run that have ex: "wfes ext w r z = (tr, Exit j)" by simp
    show ?thesis
      using wfes_Exit [OF ex] by (elim disjE conjE) simp_all
  qed
  from forward have forward': "\<forall>k<length (pardiso_calls tr).
            p_phase (pardiso_calls tr ! k) \<noteq> - 1 \<and>
            r_error (pardiso_64 ext (pardiso_calls tr ! k)) \<noteq> 0 \<longrightarrow>
              out = Exit (p_phase (pardiso_calls tr ! k)) \<and>
              Suc k = length (pardiso_calls tr) \<and>
              (p_phase (pardiso_calls tr ! k) = 11 \<and> k = 0 \<and>
                 last tr = Printf ''ERROR during symbolic factorization: ''
                             (r_error (pardiso_64 ext (pardiso_calls tr ! k))) \<or>
               p_phase (pardiso_calls tr ! k) = 22 \<and> k = 1 \<and>
                 last tr = Printf ''ERROR during numeric factorization: ''
                             (r_error (pardiso_64 ext (pardiso_calls tr ! k))) \<or>
               p_phase (pardiso_calls tr ! k) = 33 \<and> (k = 2 \<or> k = 3) \<and>
                 last tr = Printf ''ERROR during solution: ''
                             (r_error (pardiso_64 ext (pardiso_calls tr ! k))))"
    by (intro allI impI)
  from backward have backward': "\<forall>j. out = Exit j \<longrightarrow>
            pardiso_calls tr \<noteq> [] \<and>
            r_error (pardiso_64 ext (last (pardiso_calls tr))) \<noteq> 0 \<and>
            j = p_phase (last (pardiso_calls tr)) \<and>
            (j = 11 \<and> length (pardiso_calls tr) = 1 \<and>
               last tr = Printf ''ERROR during symbolic factorization: ''
                           (r_error (pardiso_64 ext (last (pardiso_calls tr)))) \<or>
             j = 22 \<and> length (pardiso_calls tr) = 2 \<and>
               last tr = Printf ''ERROR during numeric factorization: ''
                           (r_error (pardiso_64 ext (last (pardiso_calls tr)))) \<or>
             j = 33 \<and> (length (pardiso_calls tr) = 3 \<or> length (pardiso_calls tr) = 4) \<and>
               last tr = Printf ''ERROR during solution: ''
                           (r_error (pardiso_64 ext (last (pardiso_calls tr)))))"
    by (intro allI impI)
  from forward' backward' show ?thesis
    by (rule conjI)
qed

text \<open>
  The theorem at four runs of the concrete inputs: Analyze reports the status \<open>-1\<close>,
  Factorize reports \<open>-2\<close>, the first solve reports \<open>-3\<close>, the second solve reports
  \<open>-3\<close>. The exit statuses are 11, 22, 33 and 33, and the last two runs print the
  same last line.
\<close>

theorem fatal_exit_status_witness:
  "0 < length (pardiso_calls (fst
     (wfes (ex_externals [1 / 2, - 1 / 4, 1 / 8] [1, - 1, 2]
               (\<lambda>ph mode. if ph = 11 then - 1 else 0))
          ex_parameters ex_statistics 0))) \<and>
   p_phase (pardiso_calls (fst
     (wfes (ex_externals [1 / 2, - 1 / 4, 1 / 8] [1, - 1, 2]
               (\<lambda>ph mode. if ph = 11 then - 1 else 0))
          ex_parameters ex_statistics 0)) ! 0) = 11 \<and>
   r_error (pardiso_64 (ex_externals [1 / 2, - 1 / 4, 1 / 8] [1, - 1, 2]
               (\<lambda>ph mode. if ph = 11 then - 1 else 0))
     (pardiso_calls (fst
     (wfes (ex_externals [1 / 2, - 1 / 4, 1 / 8] [1, - 1, 2]
               (\<lambda>ph mode. if ph = 11 then - 1 else 0))
          ex_parameters ex_statistics 0)) ! 0)) = - 1 \<and>
   snd (wfes (ex_externals [1 / 2, - 1 / 4, 1 / 8] [1, - 1, 2]
               (\<lambda>ph mode. if ph = 11 then - 1 else 0))
          ex_parameters ex_statistics 0) = Exit 11 \<and>
   last (fst (wfes (ex_externals [1 / 2, - 1 / 4, 1 / 8] [1, - 1, 2]
               (\<lambda>ph mode. if ph = 11 then - 1 else 0))
          ex_parameters ex_statistics 0)) =
     Printf ''ERROR during symbolic factorization: '' (- 1) \<and>
   1 < length (pardiso_calls (fst
     (wfes (ex_externals [1 / 2, - 1 / 4, 1 / 8] [1, - 1, 2]
               (\<lambda>ph mode. if ph = 22 then - 2 else 0))
          ex_parameters ex_statistics 0))) \<and>
   p_phase (pardiso_calls (fst
     (wfes (ex_externals [1 / 2, - 1 / 4, 1 / 8] [1, - 1, 2]
               (\<lambda>ph mode. if ph = 22 then - 2 else 0))
          ex_parameters ex_statistics 0)) ! 1) = 22 \<and>
   r_error (pardiso_64 (ex_externals [1 / 2, - 1 / 4, 1 / 8] [1, - 1, 2]
               (\<lambda>ph mode. if ph = 22 then - 2 else 0))
     (pardiso_calls (fst
     (wfes (ex_externals [1 / 2, - 1 / 4, 1 / 8] [1, - 1, 2]
               (\<lambda>ph mode. if ph = 22 then - 2 else 0))
          ex_parameters ex_statistics 0)) ! 1)) = - 2 \<and>
   snd (wfes (ex_externals [1 / 2, - 1 / 4, 1 / 8] [1, - 1, 2]
               (\<lambda>ph mode. if ph = 22 then - 2 else 0))
          ex_parameters ex_statistics 0) = Exit 22 \<and>
   last (fst (wfes (ex_externals [1 / 2, - 1 / 4, 1 / 8] [1, - 1, 2]
               (\<lambda>ph mode. if ph = 22 then - 2 else 0))
          ex_parameters ex_statistics 0)) =
     Printf ''ERROR during numeric factorization: '' (- 2) \<and>
   2 < length (pardiso_calls (fst
     (wfes (ex_externals [1 / 2, - 1 / 4, 1 / 8] [1, - 1, 2]
               (\<lambda>ph mode. if ph = 33 \<and> mode = 0 then - 3 else 0))
          ex_parameters ex_statistics 0))) \<and>
   p_phase (pardiso_calls (fst
     (wfes (ex_externals [1 / 2, - 1 / 4, 1 / 8] [1, - 1, 2]
               (\<lambda>ph mode. if ph = 33 \<and> mode = 0 then - 3 else 0))
          ex_parameters ex_statistics 0)) ! 2) = 33 \<and>
   r_error (pardiso_64 (ex_externals [1 / 2, - 1 / 4, 1 / 8] [1, - 1, 2]
               (\<lambda>ph mode. if ph = 33 \<and> mode = 0 then - 3 else 0))
     (pardiso_calls (fst
     (wfes (ex_externals [1 / 2, - 1 / 4, 1 / 8] [1, - 1, 2]
               (\<lambda>ph mode. if ph = 33 \<and> mode = 0 then - 3 else 0))
          ex_parameters ex_statistics 0)) ! 2)) = - 3 \<and>
   snd (wfes (ex_externals [1 / 2, - 1 / 4, 1 / 8] [1, - 1, 2]
               (\<lambda>ph mode. if ph = 33 \<and> mode = 0 then - 3 else 0))
          ex_parameters ex_statistics 0) = Exit 33 \<and>
   last (fst (wfes (ex_externals [1 / 2, - 1 / 4, 1 / 8] [1, - 1, 2]
               (\<lambda>ph mode. if ph = 33 \<and> mode = 0 then - 3 else 0))
          ex_parameters ex_statistics 0)) =
     Printf ''ERROR during solution: '' (- 3) \<and>
   3 < length (pardiso_calls (fst
     (wfes (ex_externals [1 / 2, - 1 / 4, 1 / 8] [1, - 1, 2]
               (\<lambda>ph mode. if ph = 33 \<and> mode = 2 then - 3 else 0))
          ex_parameters ex_statistics 0))) \<and>
   p_phase (pardiso_calls (fst
     (wfes (ex_externals [1 / 2, - 1 / 4, 1 / 8] [1, - 1, 2]
               (\<lambda>ph mode. if ph = 33 \<and> mode = 2 then - 3 else 0))
          ex_parameters ex_statistics 0)) ! 3) = 33 \<and>
   r_error (pardiso_64 (ex_externals [1 / 2, - 1 / 4, 1 / 8] [1, - 1, 2]
               (\<lambda>ph mode. if ph = 33 \<and> mode = 2 then - 3 else 0))
     (pardiso_calls (fst
     (wfes (ex_externals [1 / 2, - 1 / 4, 1 / 8] [1, - 1, 2]
               (\<lambda>ph mode. if ph = 33 \<and> mode = 2 then - 3 else 0))
          ex_parameters ex_statistics 0)) ! 3)) = - 3 \<and>
   snd (wfes (ex_externals [1 / 2, - 1 / 4, 1 / 8] [1, - 1, 2]
               (\<lambda>ph mode. if ph = 33 \<and> mode = 2 then - 3 else 0))
          ex_parameters ex_statistics 0) = Exit 33 \<and>
   last (fst (wfes (ex_externals [1 / 2, - 1 / 4, 1 / 8] [1, - 1, 2]
               (\<lambda>ph mode. if ph = 33 \<and> mode = 2 then - 3 else 0))
          ex_parameters ex_statistics 0)) =
     Printf ''ERROR during solution: '' (- 3)"
proof -
  let ?ext1 = "ex_externals [1 / 2, - 1 / 4, 1 / 8] [1, - 1, 2]
               (\<lambda>ph mode. if ph = 11 then - 1 else 0)"
  let ?run1 = "wfes ?ext1 ex_parameters ex_statistics 0"
  have run1: "?run1 = (fst ?run1, snd ?run1)"
    by simp
  have reached1: "0 < length (pardiso_calls (fst ?run1))"
    by (simp add: ex_wfes_analyze_fails)
  have phase1: "p_phase (pardiso_calls (fst ?run1) ! 0) = 11"
    by (simp add: ex_wfes_analyze_fails)
  have status1: "r_error (pardiso_64 ?ext1 (pardiso_calls (fst ?run1) ! 0)) = - 1"
    by (simp add: ex_wfes_analyze_fails)
  from fatal_exit_status [OF run1, THEN conjunct1, rule_format, OF reached1]
  have "snd ?run1 = Exit 11 \<and>
      last (fst ?run1) = Printf ''ERROR during symbolic factorization: '' (- 1)"
    unfolding phase1 status1 by simp
  then have exit1: "snd ?run1 = Exit 11"
    and line1: "last (fst ?run1) = Printf ''ERROR during symbolic factorization: '' (- 1)"
    by simp_all
  let ?ext2 = "ex_externals [1 / 2, - 1 / 4, 1 / 8] [1, - 1, 2]
               (\<lambda>ph mode. if ph = 22 then - 2 else 0)"
  let ?run2 = "wfes ?ext2 ex_parameters ex_statistics 0"
  have run2: "?run2 = (fst ?run2, snd ?run2)"
    by simp
  have reached2: "1 < length (pardiso_calls (fst ?run2))"
    by (simp add: ex_wfes_factorize_fails)
  have phase2: "p_phase (pardiso_calls (fst ?run2) ! 1) = 22"
    by (simp add: ex_wfes_factorize_fails)
  have status2: "r_error (pardiso_64 ?ext2 (pardiso_calls (fst ?run2) ! 1)) = - 2"
    by (simp add: ex_wfes_factorize_fails)
  from fatal_exit_status [OF run2, THEN conjunct1, rule_format, OF reached2]
  have "snd ?run2 = Exit 22 \<and>
      last (fst ?run2) = Printf ''ERROR during numeric factorization: '' (- 2)"
    unfolding phase2 status2 by simp
  then have exit2: "snd ?run2 = Exit 22"
    and line2: "last (fst ?run2) = Printf ''ERROR during numeric factorization: '' (- 2)"
    by simp_all
  let ?ext3 = "ex_externals [1 / 2, - 1 / 4, 1 / 8] [1, - 1, 2]
               (\<lambda>ph mode. if ph = 33 \<and> mode = 0 then - 3 else 0)"
  let ?run3 = "wfes ?ext3 ex_parameters ex_statistics 0"
  have run3: "?run3 = (fst ?run3, snd ?run3)"
    by simp
  have reached3: "2 < length (pardiso_calls (fst ?run3))"
    by (simp add: ex_wfes_forward_fails)
  have phase3: "p_phase (pardiso_calls (fst ?run3) ! 2) = 33"
    by (simp add: ex_wfes_forward_fails)
  have status3: "r_error (pardiso_64 ?ext3 (pardiso_calls (fst ?run3) ! 2)) = - 3"
    by (simp add: ex_wfes_forward_fails)
  from fatal_exit_status [OF run3, THEN conjunct1, rule_format, OF reached3]
  have "snd ?run3 = Exit 33 \<and>
      last (fst ?run3) = Printf ''ERROR during solution: '' (- 3)"
    unfolding phase3 status3 by simp
  then have exit3: "snd ?run3 = Exit 33"
    and line3: "last (fst ?run3) = Printf ''ERROR during solution: '' (- 3)"
    by simp_all
  let ?ext4 = "ex_externals [1 / 2, - 1 / 4, 1 / 8] [1, - 1, 2]
               (\<lambda>ph mode. if ph = 33 \<and> mode = 2 then - 3 else 0)"
  let ?run4 = "wfes ?ext4 ex_parameters ex_statistics 0"
  have run4: "?run4 = (fst ?run4, snd ?run4)"
    by simp
  have reached4: "3 < length (pardiso_calls (fst ?run4))"
    by (simp add: ex_wfes_transpose_fails ex_statistics_def)
  have phase4: "p_phase (pardiso_calls (fst ?run4) ! 3) = 33"
    by (simp add: ex_wfes_transpose_fails ex_statistics_def)
  have status4: "r_error (pardiso_64 ?ext4 (pardiso_calls (fst ?run4) ! 3)) = - 3"
    by (simp add: ex_wfes_transpose_fails ex_statistics_def)
  from fatal_exit_status [OF run4, THEN conjunct1, rule_format, OF reached4]
  have "snd ?run4 = Exit 33 \<and>
      last (fst ?run4) = Printf ''ERROR during solution: '' (- 3)"
    unfolding phase4 status4 by simp
  then have exit4: "snd ?run4 = Exit 33"
    and line4: "last (fst ?run4) = Printf ''ERROR during solution: '' (- 3)"
    by simp_all
  from reached1 phase1 status1 exit1 line1 reached2 phase2 status2 exit2 line2
    reached3 phase3 status3 exit3 line3 reached4 phase4 status4 exit4 line4
  show ?thesis
    by (intro conjI)
qed

text \<open>
  C8, as amended. The row-block size is 10% of the matrix dimension \<open>2N - 1\<close> rounded
  down to an integer once the matrix exceeds 100 rows, as long as \<open>2N - 1 < 2^52\<close>, and
  the full dimension otherwise. The choice of block size does not change the assembled
  matrix or any result: for a builder that assembles as the specification describes,
  the matrix is the same at every block size at which the builder returns one, the
  size \<open>wfes\<close> chooses among them, and so is the whole run of \<open>wfes\<close> on a builder pinned
  to another block size.
\<close>

theorem row_block_size:
  assumes population: "1 \<le> population_size w"
    and range: "matrix_size w < 2 ^ 52"
    and builder: "\<forall>bs A. wf_matrix_csr_spec (wf_sampling_coefficient ext) w bs z = Some A \<longrightarrow>
                    wf_matrix_csr ext w bs z = A"
  shows "block_size w =
           (if 100 < matrix_size w then \<lfloor>real_of_int (matrix_size w) * (10 / 100)\<rfloor>
            else matrix_size w) \<and>
         1 \<le> block_size w \<and>
         (\<exists>A. wf_matrix_csr_spec (wf_sampling_coefficient ext) w (block_size w) z = Some A) \<and>
         (\<forall>bs A. wf_matrix_csr_spec (wf_sampling_coefficient ext) w bs z = Some A \<longrightarrow>
            wf_matrix_csr ext w bs z = wf_matrix_csr ext w (block_size w) z \<and>
            wfes (ext\<lparr>wf_matrix_csr := \<lambda>w' b z'. wf_matrix_csr ext w' bs z'\<rparr>) w r z =
              wfes ext w r z)"
proof -
  let ?M = "csr_of_rows (map (matrix_row (wf_sampling_coefficient ext) w z)
              [0..<nat (matrix_size w)])"
  have size: "block_size w =
           (if 100 < matrix_size w then \<lfloor>real_of_int (matrix_size w) * (10 / 100)\<rfloor>
            else matrix_size w)"
    using range by (rule block_size_floor)
  have pos: "1 \<le> block_size w"
    using population range by (rule block_size_pos)
  then have chosen: "wf_matrix_csr_spec (wf_sampling_coefficient ext) w (block_size w) z = Some ?M"
    by (rule wf_matrix_csr_spec_blocks)
  then have returns: "\<exists>A. wf_matrix_csr_spec (wf_sampling_coefficient ext) w (block_size w) z = Some A" ..
  from builder chosen have own: "wf_matrix_csr ext w (block_size w) z = ?M"
    by blast
  have same: "wf_matrix_csr ext w bs z = wf_matrix_csr ext w (block_size w) z \<and>
      wfes (ext\<lparr>wf_matrix_csr := \<lambda>w' b z'. wf_matrix_csr ext w' bs z'\<rparr>) w r z = wfes ext w r z"
    if some: "wf_matrix_csr_spec (wf_sampling_coefficient ext) w bs z = Some A" for bs A
  proof -
    from some have "1 \<le> bs"
      by (simp add: wf_matrix_csr_spec_def split: if_splits)
    then have "wf_matrix_csr_spec (wf_sampling_coefficient ext) w bs z = Some ?M"
      by (rule wf_matrix_csr_spec_blocks)
    with builder have "wf_matrix_csr ext w bs z = ?M"
      by blast
    with own have eq: "wf_matrix_csr ext w bs z = wf_matrix_csr ext w (block_size w) z"
      by simp
    from eq wfes_matrix_only [OF eq] show ?thesis
      by (rule conjI)
  qed
  then have same': "\<forall>bs A. wf_matrix_csr_spec (wf_sampling_coefficient ext) w bs z = Some A \<longrightarrow>
            wf_matrix_csr ext w bs z = wf_matrix_csr ext w (block_size w) z \<and>
            wfes (ext\<lparr>wf_matrix_csr := \<lambda>w' b z'. wf_matrix_csr ext w' bs z'\<rparr>) w r z =
              wfes ext w r z"
    by (intro allI impI)
  from size pos returns same' show ?thesis
    by (intro conjI)
qed

text \<open>
  The theorem at \<open>N = 51\<close> (101 rows, blocks of 10) and at the concrete inputs, where the
  matrix assembled in blocks of 2 rows at the threshold \<open>1/10\<close> is computed and is the
  matrix at the block size \<open>wfes\<close> chooses.
\<close>

theorem row_block_size_witness:
  "1 \<le> population_size (ex_parameters\<lparr>population_size := 51\<rparr>) \<and>
   matrix_size (ex_parameters\<lparr>population_size := 51\<rparr>) = 101 \<and>
   matrix_size (ex_parameters\<lparr>population_size := 51\<rparr>) < 2 ^ 52 \<and>
   block_size (ex_parameters\<lparr>population_size := 51\<rparr>) = 10 \<and>
   wf_matrix_csr ex_spec_externals (ex_parameters\<lparr>population_size := 51\<rparr>) 1 0 =
     wf_matrix_csr ex_spec_externals (ex_parameters\<lparr>population_size := 51\<rparr>) 10 0 \<and>
   1 \<le> population_size ex_parameters \<and>
   matrix_size ex_parameters < 2 ^ 52 \<and>
   wf_matrix_csr_spec (wf_sampling_coefficient ex_spec_externals) ex_parameters 2 (1 / 10) =
     Some \<lparr>data = [37 / 64, - 27 / 128, - 1 / 4, 5 / 8, - 1 / 4, - 27 / 128, 37 / 64],
       cols = [0, 1, 0, 1, 2, 1, 2], row_index = [0, 2, 5, 7]\<rparr> \<and>
   wf_matrix_csr ex_spec_externals ex_parameters (block_size ex_parameters) (1 / 10) =
     \<lparr>data = [37 / 64, - 27 / 128, - 1 / 4, 5 / 8, - 1 / 4, - 27 / 128, 37 / 64],
      cols = [0, 1, 0, 1, 2, 1, 2], row_index = [0, 2, 5, 7]\<rparr>"
proof -
  let ?w = "ex_parameters\<lparr>population_size := 51\<rparr>"
  let ?A = "\<lparr>data = [37 / 64, - 27 / 128, - 1 / 4, 5 / 8, - 1 / 4, - 27 / 128, 37 / 64],
      cols = [0, 1, 0, 1, 2, 1, 2], row_index = [0, 2, 5, 7]\<rparr>"
  have p: "1 \<le> population_size ?w"
    by simp
  have m: "matrix_size ?w = 101"
    by (simp add: matrix_size_def)
  have range: "matrix_size ?w < 2 ^ 52"
    unfolding m by simp
  have b: "\<forall>bs A. wf_matrix_csr_spec (wf_sampling_coefficient ex_spec_externals) ?w bs 0 = Some A
              \<longrightarrow> wf_matrix_csr ex_spec_externals ?w bs 0 = A"
    by (simp add: ex_spec_externals_builder)
  note large = row_block_size [OF p range b, of ex_statistics]
  from large have "block_size ?w =
      (if 100 < matrix_size ?w then \<lfloor>real_of_int (matrix_size ?w) * (10 / 100)\<rfloor>
       else matrix_size ?w)"
    by (rule conjunct1)
  then have size: "block_size ?w = 10"
    unfolding m by simp
  have one: "wf_matrix_csr_spec (wf_sampling_coefficient ex_spec_externals) ?w 1 0 =
      Some (csr_of_rows (map (matrix_row (wf_sampling_coefficient ex_spec_externals) ?w 0)
              [0..<nat (matrix_size ?w)]))"
    by (rule wf_matrix_csr_spec_blocks) simp
  from large [THEN conjunct2, THEN conjunct2, THEN conjunct2, rule_format, OF one]
  have "wf_matrix_csr ex_spec_externals ?w 1 0 =
        wf_matrix_csr ex_spec_externals ?w (block_size ?w) 0"
    by (rule conjunct1)
  with size have same: "wf_matrix_csr ex_spec_externals ?w 1 0 =
        wf_matrix_csr ex_spec_externals ?w 10 0"
    by simp
  have p2: "1 \<le> population_size ex_parameters"
    by simp
  have range2: "matrix_size ex_parameters < 2 ^ 52"
    by simp
  have b2: "\<forall>bs A. wf_matrix_csr_spec (wf_sampling_coefficient ex_spec_externals)
                    ex_parameters bs (1 / 10) = Some A
              \<longrightarrow> wf_matrix_csr ex_spec_externals ex_parameters bs (1 / 10) = A"
    by (simp add: ex_spec_externals_builder)
  have two: "wf_matrix_csr_spec (wf_sampling_coefficient ex_spec_externals)
      ex_parameters 2 (1 / 10) = Some ?A"
    using ex_matrix by (simp add: ex_spec_externals_def)
  then have "wf_matrix_csr ex_spec_externals ex_parameters 2 (1 / 10) = ?A"
    by (rule ex_spec_externals_builder)
  moreover from row_block_size [OF p2 range2 b2, of ex_statistics,
      THEN conjunct2, THEN conjunct2, THEN conjunct2, rule_format, OF two]
  have "wf_matrix_csr ex_spec_externals ex_parameters 2 (1 / 10) =
        wf_matrix_csr ex_spec_externals ex_parameters (block_size ex_parameters) (1 / 10)"
    by (rule conjunct1)
  ultimately have chosen:
    "wf_matrix_csr ex_spec_externals ex_parameters (block_size ex_parameters) (1 / 10) = ?A"
    by simp
  from p m range size same p2 range2 two chosen show ?thesis
    by (intro conjI)
qed

text \<open>
  C8 as stated fails. The block size is an integer and \<open>2N - 1\<close> is odd, so 10% of the
  dimension can only mean a rounding of it. It is not the nearest integer: at \<open>N = 55\<close>
  the matrix has 109 rows and the block size is 10. It is not always the integer
  below: at \<open>N = 3618827838455550\<close> the product \<open>matrix_size * 0.1\<close>, rounded to a
  double, is the integer 723765567691110, above 10% of the dimension
  7237655676911099.
\<close>

theorem row_block_size_counterexample:
  "matrix_size (ex_parameters\<lparr>population_size := 55\<rparr>) = 109 \<and>
   block_size (ex_parameters\<lparr>population_size := 55\<rparr>) = 10 \<and>
   round (real_of_int (matrix_size (ex_parameters\<lparr>population_size := 55\<rparr>)) * (10 / 100)) = 11 \<and>
   matrix_size (ex_parameters\<lparr>population_size := 3618827838455550\<rparr>) = 7237655676911099 \<and>
   block_size (ex_parameters\<lparr>population_size := 3618827838455550\<rparr>) = 723765567691110 \<and>
   \<lfloor>real_of_int (matrix_size (ex_parameters\<lparr>population_size := 3618827838455550\<rparr>))
      * (10 / 100)\<rfloor> = 723765567691109 \<and>
   real_of_int (matrix_size (ex_parameters\<lparr>population_size := 3618827838455550\<rparr>)) * (10 / 100)
     < real_of_int (block_size (ex_parameters\<lparr>population_size := 3618827838455550\<rparr>))"
proof -
  have m: "matrix_size (ex_parameters\<lparr>population_size := 55\<rparr>) = 109"
    by (simp add: matrix_size_def)
  then have "matrix_size (ex_parameters\<lparr>population_size := 55\<rparr>) < 2 ^ 52"
    by simp
  from block_size_div [OF this] have small: "block_size (ex_parameters\<lparr>population_size := 55\<rparr>) = 10"
    unfolding m by simp
  have nearest: "round (real_of_int (matrix_size (ex_parameters\<lparr>population_size := 55\<rparr>))
      * (10 / 100)) = 11"
    unfolding m by (simp add: round_def)
  have large: "matrix_size (ex_parameters\<lparr>population_size := 3618827838455550\<rparr>) =
      7237655676911099"
    by (simp add: matrix_size_def)
  have down: "\<lfloor>real_of_int (matrix_size (ex_parameters\<lparr>population_size := 3618827838455550\<rparr>))
      * (10 / 100)\<rfloor> = 723765567691109"
    unfolding large by simp
  have above: "real_of_int (matrix_size (ex_parameters\<lparr>population_size := 3618827838455550\<rparr>))
      * (10 / 100)
     < real_of_int (block_size (ex_parameters\<lparr>population_size := 3618827838455550\<rparr>))"
    unfolding large block_size_large by simp
  from m small nearest large block_size_large down above show ?thesis
    by (intro conjI)
qed

end
